theory Spec2Isabelle
  imports Complex_Main
begin

section \<open>Room codes and meeting ids\<close>

text \<open>
  \<^verbatim>\<open>generateRoomCode\<close> and \<^verbatim>\<open>generateMeetingId\<close> build a string by appending, ten
  respectively nine times, \<^verbatim>\<open>chars.charAt(Math.floor(Math.random() * chars.length))\<close>.
  The random source is a parameter: \<open>rnd i\<close> is the value of the \<open>i\<close>-th call of
  \<^verbatim>\<open>Math.random()\<close>.

  JavaScript numbers are IEEE 754 doubles. A finite double is modelled by the real number
  it denotes, and an arithmetic operation by the exact operation followed by
  \<open>dbl_round\<close>: rounding to the nearest double, ties to the even significand, with a
  significand of 53 bits and exponents from \<open>-1022\<close> (below which the spacing stays
  that of the subnormal numbers) to \<open>1023\<close>. Overflow to infinity is not modelled; the
  products formed here are below 64.
\<close>

definition chars :: string where
  "chars = ''ABCDEFGHIJKLMNOPQRSTUVWXYZ0123456789''"

text \<open>\<^verbatim>\<open>String.prototype.charAt\<close>: the one-character string at the index, the empty
  string when the index is out of range.\<close>

definition charAt :: "string \<Rightarrow> int \<Rightarrow> string" where
  "charAt s k = (if 0 \<le> k \<and> k < int (length s) then [s ! nat k] else [])"

text \<open>The binary exponent of a non-negative real: for \<open>1 \<le> x\<close> the number of halvings
  that bring it below 2 (at most 1023), for \<open>x < 1\<close> minus the number of doublings that
  bring it to 1 or above (at most 1022).\<close>

fun hi_exp :: "nat \<Rightarrow> real \<Rightarrow> nat" where
  "hi_exp 0 x = 0"
| "hi_exp (Suc n) x = (if x < 2 then 0 else Suc (hi_exp n (x / 2)))"

fun lo_exp :: "nat \<Rightarrow> real \<Rightarrow> nat" where
  "lo_exp 0 x = 0"
| "lo_exp (Suc n) x = (if 1 \<le> x then 0 else Suc (lo_exp n (2 * x)))"

definition expo :: "real \<Rightarrow> int" where
  "expo x = (if 1 \<le> x then int (hi_exp 1023 x) else - int (lo_exp 1022 x))"

definition pow2 :: "int \<Rightarrow> real" where
  "pow2 e = (if 0 \<le> e then 2 ^ nat e else 1 / 2 ^ nat (- e))"

text \<open>The spacing of the doubles around a non-negative \<open>x\<close>.\<close>

definition ulp :: "real \<Rightarrow> real" where
  "ulp x = pow2 (expo x - 52)"

definition round_half_even :: "real \<Rightarrow> int" where
  "round_half_even z =
     (let f = \<lfloor>z\<rfloor>; d = z - of_int f
      in if d < 1 / 2 then f else if 1 / 2 < d then f + 1 else if even f then f else f + 1)"

definition dbl_round :: "real \<Rightarrow> real" where
  "dbl_round x =
     (if x < 0 then - (of_int (round_half_even (- x / ulp (- x))) * ulp (- x))
      else of_int (round_half_even (x / ulp x)) * ulp x)"

text \<open>A real number is a double when rounding leaves it alone.\<close>

definition is_double :: "real \<Rightarrow> bool" where
  "is_double x = (dbl_round x = x)"

text \<open>The \<^verbatim>\<open>*\<close> of two numbers.\<close>

definition dbl_mult :: "real \<Rightarrow> real \<Rightarrow> real" where
  "dbl_mult a b = dbl_round (a * b)"

text \<open>The \<^verbatim>\<open>for (let i = 0; i < n; i++) result += ...\<close> loop of both generators.\<close>

function codeLoop :: "nat \<Rightarrow> (nat \<Rightarrow> real) \<Rightarrow> nat \<Rightarrow> string \<Rightarrow> string" where
  "codeLoop n rnd i result =
     (if i < n
      then codeLoop n rnd (i + 1)
             (result @ charAt chars \<lfloor>dbl_mult (rnd i) (real (length chars))\<rfloor>)
      else result)"
  by pat_completeness auto
termination
  by (relation "measure (\<lambda>(n, rnd, i, result). n - i)") auto

declare codeLoop.simps [simp del]

definition generateRoomCode :: "(nat \<Rightarrow> real) \<Rightarrow> string" where
  "generateRoomCode rnd = codeLoop 10 rnd 0 []"

definition generateMeetingId :: "(nat \<Rightarrow> real) \<Rightarrow> string" where
  "generateMeetingId rnd = codeLoop 9 rnd 0 []"

section \<open>Connection registry, signalling relay and chat relay\<close>

text \<open>
  The socket handlers of the two server variants (\<^verbatim>\<open>io.on('connection', ...)\<close>).
  The socket.io server is modelled by the two tables the handlers read:
  \<open>sockets\<close> is \<^verbatim>\<open>io.sockets.sockets\<close> (connection id to socket object, of which
  the handlers use the properties \<^verbatim>\<open>userId\<close> and \<^verbatim>\<open>userData\<close>) and \<open>rooms\<close> is
  \<^verbatim>\<open>io.sockets.adapter.rooms\<close> (room id to the set of its connection ids, in
  insertion order; the empty list stands for a room that does not exist).
  Connection ids and room ids are strings in one name space: socket.io puts every new
  connection into a room named by the connection's own id, and \<^verbatim>\<open>io.to(id).emit\<close>
  addresses that room, so it reaches every connection that has joined a room of that
  name. A handler returns the list of deliveries it causes: recipient and event.
\<close>

datatype jsval = Undefined | Str string

text \<open>JavaScript truthiness of such a value: \<^verbatim>\<open>undefined\<close> and \<^verbatim>\<open>''\<close> are falsy.\<close>

fun truthy :: "jsval \<Rightarrow> bool" where
  "truthy Undefined = False"
| "truthy (Str s) = (s \<noteq> [])"

type_synonym obj = "(string \<times> jsval) list"

fun obj_put :: "string \<Rightarrow> jsval \<Rightarrow> obj \<Rightarrow> obj" where
  "obj_put k v [] = [(k, v)]"
| "obj_put k v ((k', v') # ob) =
     (if k = k' then (k, v) # ob else (k', v') # obj_put k v ob)"

definition obj_get :: "obj \<Rightarrow> string \<Rightarrow> jsval" where
  "obj_get ob k = (case map_of ob k of None \<Rightarrow> Undefined | Some v \<Rightarrow> v)"

text \<open>\<^verbatim>\<open>{ ...ob, ...userData }\<close>: the properties of \<open>userData\<close> are copied in
  order, overriding; spreading \<^verbatim>\<open>undefined\<close> copies nothing.\<close>

definition spread :: "obj \<Rightarrow> obj option \<Rightarrow> obj" where
  "spread ob userData =
     fold (\<lambda>(k, v). obj_put k v) (case userData of None \<Rightarrow> [] | Some kvs \<Rightarrow> kvs) ob"

type_synonym sid = string

record socket =
  s_userId :: jsval
  s_userData :: "obj option"

record registry =
  sockets :: "sid \<rightharpoonup> socket"
  rooms :: "string \<Rightarrow> sid list"

datatype event =
    UserConnected obj
  | RoomUsers "obj list"
  | Signal jsval string
  | ReceiveMessage jsval string string string

type_synonym delivery = "sid \<times> event"

datatype js_error = TypeError

text \<open>Adding to a room (a JavaScript \<^verbatim>\<open>Set\<close>): a member is not added twice.\<close>

definition add_member :: "sid list \<Rightarrow> sid \<Rightarrow> sid list" where
  "add_member members c = (if c \<in> set members then members else members @ [c])"

text \<open>A new connection: a socket object with no \<^verbatim>\<open>userId\<close> and no \<^verbatim>\<open>userData\<close>,
  which socket.io puts into the room named by its id.\<close>

definition connect :: "registry \<Rightarrow> sid \<Rightarrow> registry" where
  "connect st c =
     st\<lparr>sockets := (sockets st)(c \<mapsto> \<lparr>s_userId = Undefined, s_userData = None\<rparr>),
        rooms := (rooms st)(c := add_member (rooms st c) c)\<rparr>"

text \<open>\<^verbatim>\<open>socket.join(roomId); socket.userId = userId; socket.userData = userData\<close>.\<close>

definition bind_identity :: "registry \<Rightarrow> sid \<Rightarrow> string \<Rightarrow> jsval \<Rightarrow> obj option \<Rightarrow> registry" where
  "bind_identity st c roomId userId userData =
     st\<lparr>rooms := (rooms st)(roomId := add_member (rooms st roomId) c),
        sockets := (sockets st)(c \<mapsto> \<lparr>s_userId = userId, s_userData = userData\<rparr>)\<rparr>"

text \<open>\<^verbatim>\<open>socket.to(roomId).emit(ev)\<close>: every connection of the room but the sender.\<close>

definition to_room :: "registry \<Rightarrow> sid \<Rightarrow> string \<Rightarrow> event \<Rightarrow> delivery list" where
  "to_room st c roomId ev = map (\<lambda>d. (d, ev)) (filter (\<lambda>d. d \<noteq> c) (rooms st roomId))"

text \<open>\<^verbatim>\<open>io.to(room).emit(ev)\<close>: every connection of the room.\<close>

definition io_to :: "registry \<Rightarrow> string \<Rightarrow> event \<Rightarrow> delivery list" where
  "io_to st room ev = map (\<lambda>d. (d, ev)) (rooms st room)"

text \<open>\<^verbatim>\<open>clients.filter(id => id !== socket.id)\<close>.\<close>

definition other_ids :: "registry \<Rightarrow> sid \<Rightarrow> string \<Rightarrow> sid list" where
  "other_ids st c roomId = filter (\<lambda>d. d \<noteq> c) (rooms st roomId)"

text \<open>
  First variant: \<^verbatim>\<open>{ userId: sockets.get(id).userId, ...sockets.get(id).userData }\<close> for
  every other id; reading a property of a missing socket raises \<^verbatim>\<open>TypeError\<close>.
\<close>

fun others_p1 :: "registry \<Rightarrow> sid list \<Rightarrow> js_error + obj list" where
  "others_p1 st [] = Inr []"
| "others_p1 st (d # ds) =
     (case sockets st d of
        None \<Rightarrow> Inl TypeError
      | Some s \<Rightarrow>
          (case others_p1 st ds of
             Inl e \<Rightarrow> Inl e
           | Inr os \<Rightarrow> Inr (spread [(''userId'', s_userId s)] (s_userData s) # os)))"

definition join_room_p1 ::
  "registry \<Rightarrow> sid \<Rightarrow> string \<Rightarrow> jsval \<Rightarrow> obj option \<Rightarrow> js_error + registry \<times> delivery list" where
  "join_room_p1 st c roomId userId userData =
     (let st1 = bind_identity st c roomId userId userData;
          connected = to_room st1 c roomId (UserConnected (spread [(''userId'', userId)] userData))
      in case others_p1 st1 (other_ids st1 c roomId) of
           Inl e \<Rightarrow> Inl e
         | Inr others \<Rightarrow> Inr (st1, connected @ [(c, RoomUsers others)]))"

text \<open>
  Second variant: optional chaining (\<^verbatim>\<open>sockets.get(id)?.userId\<close>, a missing socket gives
  \<^verbatim>\<open>{ userId: undefined }\<close>) and the extra \<^verbatim>\<open>.filter(user => user.userId)\<close>.
\<close>

definition entry_p2 :: "registry \<Rightarrow> sid \<Rightarrow> obj" where
  "entry_p2 st d =
     (case sockets st d of
        None \<Rightarrow> [(''userId'', Undefined)]
      | Some s \<Rightarrow> spread [(''userId'', s_userId s)] (s_userData s))"

definition others_p2 :: "registry \<Rightarrow> sid list \<Rightarrow> obj list" where
  "others_p2 st ds = filter (\<lambda>user. truthy (obj_get user ''userId'')) (map (entry_p2 st) ds)"

definition join_room_p2 ::
  "registry \<Rightarrow> sid \<Rightarrow> string \<Rightarrow> jsval \<Rightarrow> obj option \<Rightarrow> registry \<times> delivery list" where
  "join_room_p2 st c roomId userId userData =
     (let st1 = bind_identity st c roomId userId userData;
          connected = to_room st1 c roomId (UserConnected (spread [(''userId'', userId)] userData))
      in (st1, connected @ [(c, RoomUsers (others_p2 st1 (other_ids st1 c roomId)))]))"

text \<open>
  The payloads of \<^verbatim>\<open>signal\<close> and \<^verbatim>\<open>send-message\<close> are objects sent by the client.
  The handlers read the named properties; \<open>sg_extra\<close> and \<open>md_extra\<close> hold whatever
  else the client put into the object (a \<^verbatim>\<open>userId\<close> of its own choosing, say).
\<close>

record signal_payload =
  sg_roomId :: string
  sg_targetUserId :: jsval
  sg_signal :: string
  sg_extra :: obj

record message_data =
  md_roomId :: string
  md_userName :: string
  md_message :: string
  md_timestamp :: string
  md_extra :: obj

text \<open>\<^verbatim>\<open>socket.userId\<close> of the connection whose handler runs.\<close>

definition sock_userId :: "registry \<Rightarrow> sid \<Rightarrow> jsval" where
  "sock_userId st c = (case sockets st c of None \<Rightarrow> Undefined | Some s \<Rightarrow> s_userId s)"

text \<open>The predicate of \<^verbatim>\<open>clients.find\<close>:
  \<^verbatim>\<open>clientSocket && clientSocket.userId === targetUserId\<close>.\<close>

definition is_target :: "registry \<Rightarrow> jsval \<Rightarrow> sid \<Rightarrow> bool" where
  "is_target st targetUserId d =
     (case sockets st d of None \<Rightarrow> False | Some s \<Rightarrow> s_userId s = targetUserId)"

text \<open>The handler of \<^verbatim>\<open>signal\<close>. \<^verbatim>\<open>if (targetSocket)\<close> tests the id that
  \<^verbatim>\<open>find\<close> returned: \<^verbatim>\<open>undefined\<close> (none found) and the empty string are falsy.\<close>

definition signal :: "registry \<Rightarrow> sid \<Rightarrow> signal_payload \<Rightarrow> delivery list" where
  "signal st c p =
     (case find (is_target st (sg_targetUserId p)) (rooms st (sg_roomId p)) of
        Some targetSocket \<Rightarrow>
          if targetSocket \<noteq> []
          then io_to st targetSocket (Signal (sock_userId st c) (sg_signal p))
          else []
      | None \<Rightarrow> [])"

definition send_message :: "registry \<Rightarrow> sid \<Rightarrow> message_data \<Rightarrow> delivery list" where
  "send_message st c messageData =
     to_room st c (md_roomId messageData)
       (ReceiveMessage (sock_userId st c) (md_userName messageData)
          (md_message messageData) (md_timestamp messageData))"

text \<open>The \<^verbatim>\<open>userId\<close> property of an emitted event object.\<close>

fun ev_userId :: "event \<Rightarrow> jsval" where
  "ev_userId (UserConnected ob) = obj_get ob ''userId''"
| "ev_userId (RoomUsers obs) = Undefined"
| "ev_userId (Signal u sg) = u"
| "ev_userId (ReceiveMessage u n m t) = u"

definition registry0 :: registry where
  "registry0 = \<lparr>sockets = Map.empty, rooms = (\<lambda>r. [])\<rparr>"


section \<open>Meeting records and the two stores\<close>

text \<open>
  The meeting lifecycle routes (\<^verbatim>\<open>/api/room/create\<close>, \<^verbatim>\<open>join\<close>, \<^verbatim>\<open>end\<close>, \<^verbatim>\<open>leave\<close>
  and \<^verbatim>\<open>/api/room/:roomCode\<close>) are identical in the two server variants. They work on the
  \<^verbatim>\<open>meetings\<close> collection of the authoritative store through \<^verbatim>\<open>models/meeting.js\<close> and
  on the process-local map \<^verbatim>\<open>inMemoryRooms\<close>.

  Times are numbers; the value of \<^verbatim>\<open>new Date()\<close> is the \<open>now\<close> of the request's
  environment (the calls within one request are not told apart). A date is truthy, so
  \<^verbatim>\<open>!p.leftAt\<close> is \<open>leftAt p = None\<close>.
\<close>

type_synonym timestamp = nat

record participant =
  userId :: string
  userName :: string
  joinedAt :: timestamp
  leftAt :: "timestamp option"
  isHost :: bool
  cameraOn :: "bool option"
  micOn :: "bool option"

record room_settings =
  password :: string
  maxParticipants :: int
  recordingEnabled :: bool
  waitingRoom :: bool
  muteOnJoin :: bool
  videoOnJoin :: bool
  chatEnabled :: bool
  screenShareEnabled :: bool

text \<open>
  A meeting object. In a document of the authoritative store the \<^verbatim>\<open>participants\<close>
  array holds participant values (\<open>'p = participant\<close>): every read deserialises fresh
  objects. In \<^verbatim>\<open>inMemoryRooms\<close> the array holds references to participant objects
  (\<open>'p = nat\<close>, an address of the \<open>heap\<close> below), because the handlers push one object
  more than once and later mutate it through one of the references.
\<close>

record 'p meeting =
  roomCode :: string
  meetingId :: string
  roomName :: string
  hostUserId :: string
  hostName :: string
  participants :: "'p list"
  settings :: room_settings
  isActive :: bool
  startTime :: timestamp
  endTime :: "timestamp option"
  isInstant :: bool
  createdAt :: "timestamp option"

type_synonym doc_id = string

text \<open>\<open>meetings\<close> lists the documents of the collection with their ids, in the order in
  which a query returns them.\<close>

record store =
  meetings :: "(doc_id \<times> participant meeting) list"
  inMemoryRooms :: "string \<rightharpoonup> nat meeting"
  heap :: "participant list"

definition store0 :: store where
  "store0 = \<lparr>meetings = [], inMemoryRooms = Map.empty, heap = []\<rparr>"

text \<open>
  What a request cannot decide itself: whether each call of the authoritative store
  resolves or throws (the store may be unreachable, or \<^verbatim>\<open>db\<close> may be \<^verbatim>\<open>null\<close> after a
  failed initialisation), the clock, the fresh user and document ids, and
  \<^verbatim>\<open>Math.random\<close>.
\<close>

record env =
  get_ok :: bool
  create_ok :: bool
  partWrite_ok :: bool
  endWrite_ok :: bool
  now :: timestamp
  newUserId :: string
  newDocId :: doc_id
  random :: "nat \<Rightarrow> real"

datatype store_error = Unavailable | InvalidPath

subsection \<open>\<^verbatim>\<open>models/meeting.js\<close>\<close>

text \<open>\<^verbatim>\<open>Meeting.create\<close>: adds a document with \<^verbatim>\<open>isActive: true\<close>, \<^verbatim>\<open>startTime\<close> and
  \<^verbatim>\<open>createdAt\<close> set to the current time.\<close>

definition Meeting_create ::
  "bool \<Rightarrow> doc_id \<Rightarrow> timestamp \<Rightarrow> participant meeting \<Rightarrow> (doc_id \<times> participant meeting) list
     \<Rightarrow> store_error + (doc_id \<times> participant meeting) list" where
  "Meeting_create ok i t data ds =
     (if ok
      then Inr (ds @ [(i, data\<lparr>isActive := True, startTime := t, createdAt := Some t\<rparr>)])
      else Inl Unavailable)"

text \<open>\<^verbatim>\<open>Meeting.getByRoomCode\<close>: the first document of the query
  \<^verbatim>\<open>where('roomCode', '==', roomCode)\<close> with its id, \<^verbatim>\<open>null\<close> when there is none.\<close>

definition Meeting_getByRoomCode ::
  "bool \<Rightarrow> (doc_id \<times> participant meeting) list \<Rightarrow> string
     \<Rightarrow> store_error + (doc_id \<times> participant meeting) option" where
  "Meeting_getByRoomCode ok ds code =
     (if ok then Inr (find (\<lambda>d. roomCode (snd d) = code) ds) else Inl Unavailable)"

text \<open>
  \<^verbatim>\<open>Meeting.update(id, data)\<close> is \<^verbatim>\<open>doc(id).update(data)\<close>: it rewrites the given fields
  of the document. It throws when the store is unavailable, when the document does not
  exist, and when \<open>id\<close> is \<^verbatim>\<open>undefined\<close> (\<open>None\<close>; a meeting object taken from
  \<^verbatim>\<open>inMemoryRooms\<close> has no \<^verbatim>\<open>id\<close>).
\<close>

definition Meeting_update ::
  "bool \<Rightarrow> doc_id option \<Rightarrow> (participant meeting \<Rightarrow> participant meeting)
     \<Rightarrow> (doc_id \<times> participant meeting) list
     \<Rightarrow> store_error + (doc_id \<times> participant meeting) list" where
  "Meeting_update ok i f ds =
     (case i of
        None \<Rightarrow> Inl InvalidPath
      | Some j \<Rightarrow>
          if ok \<and> j \<in> set (map fst ds)
          then Inr (map (\<lambda>d. if fst d = j then (fst d, f (snd d)) else d) ds)
          else Inl Unavailable)"

subsection \<open>Reading a meeting\<close>

definition activeCount :: "participant list \<Rightarrow> nat" where
  "activeCount ps = length (filter (\<lambda>p. leftAt p = None) ps)"

text \<open>The participants array of an in-memory meeting, references followed.\<close>

definition deref :: "store \<Rightarrow> nat meeting \<Rightarrow> participant list" where
  "deref st room = map (\<lambda>a. heap st ! a) (participants room)"

definition mem_view :: "store \<Rightarrow> nat meeting \<Rightarrow> participant meeting" where
  "mem_view st room =
     \<lparr>roomCode = roomCode room, meetingId = meetingId room, roomName = roomName room,
      hostUserId = hostUserId room, hostName = hostName room,
      participants = deref st room, settings = settings room, isActive = isActive room,
      startTime = startTime room, endTime = endTime room, isInstant = isInstant room,
      createdAt = createdAt room\<rparr>"

datatype source = FromStore doc_id | FromMemory

fun source_id :: "source \<Rightarrow> doc_id option" where
  "source_id (FromStore i) = Some i"
| "source_id FromMemory = None"

text \<open>
  The lookup shared by join, end and get:
  \<^verbatim>\<open>try { meeting = await Meeting.getByRoomCode(code) } catch { }\<close> followed by
  \<^verbatim>\<open>if (!meeting) meeting = inMemoryRooms.get(code)\<close>.
\<close>

definition lookupMeeting :: "bool \<Rightarrow> store \<Rightarrow> string \<Rightarrow> (source \<times> participant meeting) option" where
  "lookupMeeting ok st code =
     (case (case Meeting_getByRoomCode ok (meetings st) code of
              Inl e \<Rightarrow> None | Inr r \<Rightarrow> r) of
        Some d \<Rightarrow> Some (FromStore (fst d), snd d)
      | None \<Rightarrow>
          (case inMemoryRooms st code of
             None \<Rightarrow> None
           | Some room \<Rightarrow> Some (FromMemory, mem_view st room)))"

datatype 'a response = Success 'a | BadRequest | Unauthorized | Forbidden | NotFound

subsection \<open>\<^verbatim>\<open>POST /api/room/create\<close>\<close>

record create_req =
  c_roomName :: string
  c_username :: string
  c_userName :: string
  c_name :: string
  c_password :: "string option"
  c_isInstant :: bool

text \<open>The body of the 201 answer (without the constant \<^verbatim>\<open>success\<close> and \<^verbatim>\<open>status\<close>
  fields and the \<^verbatim>\<open>debug\<close> echo of the request).\<close>

record create_ok_body =
  cr_roomCode :: string
  cr_meetingId :: string
  cr_roomName :: string
  cr_userId :: string
  cr_username :: string
  cr_hostName :: string
  cr_meetingLink :: string
  cr_settings :: room_settings

text \<open>A missing string field of a request body is the empty string: both are falsy.
  \<^verbatim>\<open>a || b || c\<close> is the first truthy operand, the last one otherwise.\<close>

definition or_else :: "string \<Rightarrow> string \<Rightarrow> string" where
  "or_else a b = (if a \<noteq> [] then a else b)"

text \<open>
  Strings are sequences of characters with codes below 256, each character standing for
  the code unit of that value (the Latin-1 range; text with other code units is outside
  this model). \<^verbatim>\<open>String.prototype.trim\<close> strips white space and line terminators
  from both ends: of the code units below 256 these are TAB, LF, VT, FF, CR, the space
  and the no-break space U+00A0.
\<close>

definition is_space :: "char \<Rightarrow> bool" where
  "is_space c =
     (c \<in> set [CHR '' '', CHR 0x09, CHR 0x0A, CHR 0x0B, CHR 0x0C, CHR 0x0D, CHR 0xA0])"

definition trim :: "string \<Rightarrow> string" where
  "trim s = rev (dropWhile is_space (rev (dropWhile is_space s)))"

definition room_create :: "env \<Rightarrow> store \<Rightarrow> create_req \<Rightarrow> store \<times> create_ok_body response" where
  "room_create e st rq =
     (let username = or_else (c_username rq) (or_else (c_userName rq) (c_name rq)) in
      if c_roomName rq = [] then (st, BadRequest)
      else if username = [] then (st, BadRequest)
      else
        let code = generateRoomCode (random e);
            mid = generateMeetingId (\<lambda>i. random e (10 + i));
            uid = newUserId e;
            sets = \<lparr>password = (case c_password rq of None \<Rightarrow> [] | Some pw \<Rightarrow> pw),
                    maxParticipants = 100, recordingEnabled = False, waitingRoom = False,
                    muteOnJoin = False, videoOnJoin = True, chatEnabled = True,
                    screenShareEnabled = True\<rparr>;
            host = \<lparr>userId = uid, userName = trim username, joinedAt = now e,
                    leftAt = None, isHost = True, cameraOn = Some True, micOn = Some True\<rparr>;
            body = \<lparr>cr_roomCode = code, cr_meetingId = mid,
                    cr_roomName = trim (c_roomName rq), cr_userId = uid,
                    cr_username = trim username, cr_hostName = trim username,
                    cr_meetingLink = ''/room/'' @ code, cr_settings = sets\<rparr>
        in case Meeting_create (create_ok e) (newDocId e) (now e)
                  \<lparr>roomCode = code, meetingId = mid, roomName = trim (c_roomName rq),
                   hostUserId = uid, hostName = trim username, participants = [host],
                   settings = sets, isActive = True, startTime = now e, endTime = None,
                   isInstant = c_isInstant rq, createdAt = None\<rparr> (meetings st) of
             Inr ds \<Rightarrow> (st\<lparr>meetings := ds\<rparr>, Success body)
           | Inl err \<Rightarrow>
               (st\<lparr>heap := heap st @ [host],
                   inMemoryRooms := (inMemoryRooms st)(code \<mapsto>
                     \<lparr>roomCode = code, meetingId = mid, roomName = trim (c_roomName rq),
                      hostUserId = uid, hostName = trim username,
                      participants = [length (heap st)],
                      settings = sets, isActive = True, startTime = now e, endTime = None,
                      isInstant = c_isInstant rq, createdAt = None\<rparr>)\<rparr>,
                Success body))"

subsection \<open>\<^verbatim>\<open>POST /api/room/join\<close>\<close>

record join_req =
  j_roomCode :: string
  j_username :: string
  j_password :: "string option"

record join_ok_body =
  jr_roomCode :: string
  jr_meetingId :: string
  jr_roomName :: string
  jr_userId :: string
  jr_username :: string
  jr_hostName :: string
  jr_settings :: room_settings

text \<open>\<^verbatim>\<open>room.participants.push(obj)\<close> on the in-memory meeting stored under the code,
  if there is one; \<open>a\<close> is the address of the object.\<close>

definition push_mem :: "store \<Rightarrow> string \<Rightarrow> nat \<Rightarrow> store" where
  "push_mem st code a =
     (case inMemoryRooms st code of
        None \<Rightarrow> st
      | Some room \<Rightarrow>
          st\<lparr>inMemoryRooms := (inMemoryRooms st)(code \<mapsto>
                room\<lparr>participants := participants room @ [a]\<rparr>)\<rparr>)"

text \<open>
  After the three checks the handler creates the object \<^verbatim>\<open>newParticipant\<close> (at the next
  free address \<open>a\<close>), pushes it onto \<^verbatim>\<open>meeting.participants\<close> (for a meeting taken from
  \<^verbatim>\<open>inMemoryRooms\<close> that is the stored array itself; for a meeting read from the
  authoritative store it is the local copy \<open>ps\<close>), calls \<^verbatim>\<open>Meeting.update\<close> with the local
  array and, when that throws, pushes the same object onto the in-memory meeting stored
  under the code.
\<close>

definition room_join :: "env \<Rightarrow> store \<Rightarrow> join_req \<Rightarrow> store \<times> join_ok_body response" where
  "room_join e st rq =
     (if j_roomCode rq = [] \<or> j_username rq = [] then (st, BadRequest)
      else case lookupMeeting (get_ok e) st (j_roomCode rq) of
        None \<Rightarrow> (st, NotFound)
      | Some (src, meeting) \<Rightarrow>
          if \<not> isActive meeting then (st, NotFound)
          else if password (settings meeting) \<noteq> []
                  \<and> Some (password (settings meeting)) \<noteq> j_password rq
          then (st, Unauthorized)
          else if maxParticipants (settings meeting) \<le> int (activeCount (participants meeting))
          then (st, Forbidden)
          else
            let newParticipant = \<lparr>userId = newUserId e, userName = j_username rq,
                    joinedAt = now e, leftAt = None, isHost = False,
                    cameraOn = None, micOn = None\<rparr>;
                a = length (heap st);
                st1 = st\<lparr>heap := heap st @ [newParticipant]\<rparr>;
                st2 = (case src of
                         FromMemory \<Rightarrow> push_mem st1 (j_roomCode rq) a
                       | FromStore i \<Rightarrow> st1);
                ps = participants meeting @ [newParticipant];
                body = \<lparr>jr_roomCode = roomCode meeting, jr_meetingId = meetingId meeting,
                        jr_roomName = roomName meeting, jr_userId = newUserId e,
                        jr_username = j_username rq, jr_hostName = hostName meeting,
                        jr_settings = settings meeting\<rparr>
            in case Meeting_update (partWrite_ok e) (source_id src)
                      (\<lambda>d. d\<lparr>participants := ps\<rparr>) (meetings st2) of
                 Inr ds \<Rightarrow> (st2\<lparr>meetings := ds\<rparr>, Success body)
               | Inl err \<Rightarrow> (push_mem st2 (j_roomCode rq) a, Success body))"

subsection \<open>\<^verbatim>\<open>POST /api/room/end\<close>\<close>

record room_req =
  r_roomId :: string
  r_userId :: string

definition room_end :: "env \<Rightarrow> store \<Rightarrow> room_req \<Rightarrow> store \<times> unit response" where
  "room_end e st rq =
     (case lookupMeeting (get_ok e) st (r_roomId rq) of
        None \<Rightarrow> (st, NotFound)
      | Some (src, meeting) \<Rightarrow>
          if hostUserId meeting \<noteq> r_userId rq then (st, Forbidden)
          else case Meeting_update (endWrite_ok e) (source_id src)
                      (\<lambda>d. d\<lparr>isActive := False, endTime := Some (now e)\<rparr>) (meetings st) of
                 Inr ds \<Rightarrow> (st\<lparr>meetings := ds\<rparr>, Success ())
               | Inl err \<Rightarrow>
                   (st\<lparr>inMemoryRooms := (inMemoryRooms st)(r_roomId rq := None)\<rparr>,
                    Success ()))"

subsection \<open>\<^verbatim>\<open>POST /api/room/leave\<close>\<close>

text \<open>\<^verbatim>\<open>participants.find(p => p.userId === userId)\<close> followed by
  \<^verbatim>\<open>participant.leftAt = new Date()\<close> on an array of values: the first match changes.\<close>

fun mark_left :: "string \<Rightarrow> timestamp \<Rightarrow> participant list \<Rightarrow> participant list" where
  "mark_left u t [] = []"
| "mark_left u t (p # ps) =
     (if userId p = u then p\<lparr>leftAt := Some t\<rparr> # ps else p # mark_left u t ps)"

text \<open>The \<^verbatim>\<open>catch\<close> block of the handler: the same steps on the in-memory meeting. The
  object found through the first matching reference is mutated in place, which every
  other reference to it sees.\<close>

definition leave_memory :: "env \<Rightarrow> store \<Rightarrow> room_req \<Rightarrow> store" where
  "leave_memory e st rq =
     (case inMemoryRooms st (r_roomId rq) of
        None \<Rightarrow> st
      | Some room \<Rightarrow>
          let st1 = (case find (\<lambda>a. userId (heap st ! a) = r_userId rq) (participants room) of
                       None \<Rightarrow> st
                     | Some a \<Rightarrow>
                         st\<lparr>heap := (heap st)[a := (heap st ! a)\<lparr>leftAt := Some (now e)\<rparr>]\<rparr>)
          in if activeCount (deref st1 room) = 0
             then st1\<lparr>inMemoryRooms := (inMemoryRooms st1)(r_roomId rq := None)\<rparr>
             else st1)"

text \<open>The second half of the \<^verbatim>\<open>try\<close> block, with the participants \<open>ps\<close> of the local
  meeting object: the cascade into the end of the meeting.\<close>

definition leave_cascade ::
  "env \<Rightarrow> store \<Rightarrow> room_req \<Rightarrow> doc_id \<Rightarrow> participant list \<Rightarrow> store \<times> unit response" where
  "leave_cascade e st rq i ps =
     (if activeCount ps = 0
      then case Meeting_update (endWrite_ok e) (Some i)
                  (\<lambda>d. d\<lparr>isActive := False, endTime := Some (now e)\<rparr>) (meetings st) of
             Inr ds \<Rightarrow> (st\<lparr>meetings := ds\<rparr>, Success ())
           | Inl err \<Rightarrow> (leave_memory e st rq, Success ())
      else (st, Success ()))"

definition room_leave :: "env \<Rightarrow> store \<Rightarrow> room_req \<Rightarrow> store \<times> unit response" where
  "room_leave e st rq =
     (case Meeting_getByRoomCode (get_ok e) (meetings st) (r_roomId rq) of
        Inl err \<Rightarrow> (leave_memory e st rq, Success ())
      | Inr None \<Rightarrow> (st, Success ())
      | Inr (Some d) \<Rightarrow>
          (case find (\<lambda>p. userId p = r_userId rq) (participants (snd d)) of
             None \<Rightarrow> leave_cascade e st rq (fst d) (participants (snd d))
           | Some p \<Rightarrow>
               let ps = mark_left (r_userId rq) (now e) (participants (snd d)) in
               case Meeting_update (partWrite_ok e) (Some (fst d))
                      (\<lambda>m. m\<lparr>participants := ps\<rparr>) (meetings st) of
                 Inl err \<Rightarrow> (leave_memory e st rq, Success ())
               | Inr ds \<Rightarrow> leave_cascade e (st\<lparr>meetings := ds\<rparr>) rq (fst d) ps))"

subsection \<open>\<^verbatim>\<open>GET /api/room/:roomCode\<close>\<close>

record room_info =
  ri_roomCode :: string
  ri_meetingId :: string
  ri_roomName :: string
  ri_hostName :: string
  ri_participantCount :: nat
  ri_maxParticipants :: int
  ri_isPasswordProtected :: bool
  ri_createdAt :: "timestamp option"
  ri_startTime :: timestamp
  ri_recordingEnabled :: bool
  ri_waitingRoom :: bool
  ri_muteOnJoin :: bool
  ri_videoOnJoin :: bool
  ri_chatEnabled :: bool
  ri_screenShareEnabled :: bool

definition room_get :: "bool \<Rightarrow> store \<Rightarrow> string \<Rightarrow> room_info response" where
  "room_get ok st code =
     (case lookupMeeting ok st code of
        None \<Rightarrow> NotFound
      | Some (src, meeting) \<Rightarrow>
          if \<not> isActive meeting then NotFound
          else Success \<lparr>ri_roomCode = roomCode meeting, ri_meetingId = meetingId meeting,
                 ri_roomName = roomName meeting, ri_hostName = hostName meeting,
                 ri_participantCount = activeCount (participants meeting),
                 ri_maxParticipants = maxParticipants (settings meeting),
                 ri_isPasswordProtected = (password (settings meeting) \<noteq> []),
                 ri_createdAt = createdAt meeting, ri_startTime = startTime meeting,
                 ri_recordingEnabled = recordingEnabled (settings meeting),
                 ri_waitingRoom = waitingRoom (settings meeting),
                 ri_muteOnJoin = muteOnJoin (settings meeting),
                 ri_videoOnJoin = videoOnJoin (settings meeting),
                 ri_chatEnabled = chatEnabled (settings meeting),
                 ri_screenShareEnabled = screenShareEnabled (settings meeting)\<rparr>)"


section \<open>Concrete scenarios\<close>

text \<open>The largest double below 1.\<close>

definition top_double :: real where
  "top_double = 1 - 1 / 2 ^ 53"

text \<open>Connections \<open>c1\<close> and \<open>c2\<close> are connected; \<open>c1\<close> has sent \<^verbatim>\<open>join-room\<close> for room
  \<open>r\<close> without a user id, \<open>c2\<close> has not joined yet.\<close>

definition reg_unbound :: registry where
  "reg_unbound =
     bind_identity (connect (connect registry0 ''c1'') ''c2'') ''c1'' ''r'' Undefined None"

text \<open>Three connections that joined room \<open>r\<close> as \<open>alice\<close>, \<open>bob\<close> and \<open>carol\<close>.\<close>

definition reg_three :: registry where
  "reg_three =
     bind_identity
       (bind_identity
          (bind_identity (connect (connect (connect registry0 ''s1'') ''s2'') ''s3'')
             ''s1'' ''r'' (Str ''alice'') None)
          ''s2'' ''r'' (Str ''bob'') None)
       ''s3'' ''r'' (Str ''carol'') None"

text \<open>Connections \<open>s1\<close> and \<open>s2\<close> joined room \<open>r\<close> as \<open>alice\<close> and \<open>bob\<close>; connection
  \<open>s3\<close> sent \<^verbatim>\<open>join-room\<close> with the room id \<open>s2\<close>, the connection id of \<open>bob\<close>.\<close>

definition reg_shared :: registry where
  "reg_shared =
     bind_identity
       (bind_identity
          (bind_identity (connect (connect (connect registry0 ''s1'') ''s2'') ''s3'')
             ''s1'' ''r'' (Str ''alice'') None)
          ''s2'' ''r'' (Str ''bob'') None)
       ''s3'' ''s2'' (Str ''carol'') None"

text \<open>\<open>reg_unbound\<close> after \<open>c2\<close> joined room \<open>r\<close> as \<open>alice\<close>.\<close>

definition reg_unbound_joined :: registry where
  "reg_unbound_joined = bind_identity reg_unbound ''c2'' ''r'' (Str ''alice'') None"

definition sig_to :: "string \<Rightarrow> signal_payload" where
  "sig_to u = \<lparr>sg_roomId = ''r'', sg_targetUserId = Str u, sg_signal = ''sdp'',
              sg_extra = [(''userId'', Str ''mallory'')]\<rparr>"


definition msg_hello :: message_data where
  "msg_hello = \<lparr>md_roomId = ''r'', md_userName = ''Alice'', md_message = ''hello'',
                md_timestamp = ''12:00'', md_extra = [(''userId'', Str ''mallory'')]\<rparr>"

text \<open>The authoritative store unreachable for the whole request, and reachable.\<close>

definition env_down :: env where
  "env_down = \<lparr>get_ok = False, create_ok = False, partWrite_ok = False, endWrite_ok = False,
               now = 1, newUserId = ''user-1'', newDocId = ''doc-1'', random = (\<lambda>i. 0)\<rparr>"

definition env_up :: env where
  "env_up = \<lparr>get_ok = True, create_ok = True, partWrite_ok = True, endWrite_ok = True,
             now = 9, newUserId = ''user-2'', newDocId = ''doc-2'', random = (\<lambda>i. 0)\<rparr>"

definition req_standup :: create_req where
  "req_standup = \<lparr>c_roomName = ''Standup'', c_username = ''Alice'', c_userName = [],
                  c_name = [], c_password = None, c_isInstant = False\<rparr>"

definition settings_open :: room_settings where
  "settings_open = \<lparr>password = [], maxParticipants = 100, recordingEnabled = False,
       waitingRoom = False, muteOnJoin = False, videoOnJoin = True, chatEnabled = True,
       screenShareEnabled = True\<rparr>"

definition alice :: participant where
  "alice = \<lparr>userId = ''user-1'', userName = ''Alice'', joinedAt = 1, leftAt = None,
            isHost = True, cameraOn = Some True, micOn = Some True\<rparr>"

definition bob :: participant where
  "bob = \<lparr>userId = ''user-2'', userName = ''Bob'', joinedAt = 9, leftAt = None,
          isHost = False, cameraOn = None, micOn = None\<rparr>"

text \<open>The fallback store after \<open>req_standup\<close> was served while the authoritative store
  was unreachable: one in-memory meeting whose only participant is the host.\<close>

definition st_fallback :: store where
  "st_fallback =
     \<lparr>meetings = [],
      inMemoryRooms = [''AAAAAAAAAA'' \<mapsto>
        \<lparr>roomCode = ''AAAAAAAAAA'', meetingId = ''AAAAAAAAA'', roomName = ''Standup'',
         hostUserId = ''user-1'', hostName = ''Alice'', participants = [0],
         settings = settings_open, isActive = True, startTime = 1, endTime = None,
         isInstant = False, createdAt = None\<rparr>],
      heap = [alice]\<rparr>"

text \<open>A document of the authoritative store: an active meeting \<open>ROOM\<close> of host
  \<open>user-1\<close> with the given settings and participants.\<close>

definition doc_room :: "room_settings \<Rightarrow> participant list \<Rightarrow> participant meeting" where
  "doc_room sets ps =
     \<lparr>roomCode = ''ROOM'', meetingId = ''MEETING'', roomName = ''Standup'',
      hostUserId = ''user-1'', hostName = ''Alice'', participants = ps,
      settings = sets, isActive = True, startTime = 1, endTime = None,
      isInstant = False, createdAt = Some 1\<rparr>"

definition st_doc :: "participant meeting \<Rightarrow> store" where
  "st_doc m = \<lparr>meetings = [(''doc-1'', m)], inMemoryRooms = Map.empty, heap = []\<rparr>"

definition settings_locked_full :: room_settings where
  "settings_locked_full = settings_open\<lparr>password := ''pw'', maxParticipants := 1\<rparr>"

text \<open>Meeting \<open>ROOM\<close> with password \<open>pw\<close> and room for one participant, the host being
  in it; the same meeting ended by the host at time 5; and ended because the host left.\<close>

definition m_locked :: "participant meeting" where
  "m_locked = doc_room settings_locked_full [alice]"

definition m_closed :: "participant meeting" where
  "m_closed = m_locked\<lparr>isActive := False, endTime := Some 5\<rparr>"

definition m_ended :: "participant meeting" where
  "m_ended = (doc_room settings_locked_full [alice\<lparr>leftAt := Some 5\<rparr>])
               \<lparr>isActive := False, endTime := Some 5\<rparr>"

definition join_bob :: "string option \<Rightarrow> join_req" where
  "join_bob pw = \<lparr>j_roomCode = ''ROOM'', j_username = ''Bob'', j_password = pw\<rparr>"

text \<open>An open meeting \<open>ROOM\<close> in the authoritative store with host and one guest.\<close>

definition m_pair :: "participant meeting" where
  "m_pair = doc_room settings_open [alice, bob]"

definition end_by :: "string \<Rightarrow> string \<Rightarrow> room_req" where
  "end_by code u = \<lparr>r_roomId = code, r_userId = u\<rparr>"

text \<open>The fallback store after one join to \<open>st_fallback\<close>: the participants array
  holds the reference to the new participant twice.\<close>

definition st_joined :: store where
  "st_joined =
     \<lparr>meetings = [],
      inMemoryRooms = [''AAAAAAAAAA'' \<mapsto>
        \<lparr>roomCode = ''AAAAAAAAAA'', meetingId = ''AAAAAAAAA'', roomName = ''Standup'',
         hostUserId = ''user-1'', hostName = ''Alice'', participants = [0, 1, 1],
         settings = settings_open, isActive = True, startTime = 1, endTime = None,
         isInstant = False, createdAt = None\<rparr>],
      heap = [alice, bob]\<rparr>"

text \<open>The answers of get for the open meetings \<open>AAAAAAAAAA\<close> (in memory) and \<open>ROOM\<close>
  (a document) with \<open>n\<close> active participants, and of create and join for the former.\<close>

definition info_standup :: "nat \<Rightarrow> room_info" where
  "info_standup n =
     \<lparr>ri_roomCode = ''AAAAAAAAAA'', ri_meetingId = ''AAAAAAAAA'', ri_roomName = ''Standup'',
      ri_hostName = ''Alice'', ri_participantCount = n, ri_maxParticipants = 100,
      ri_isPasswordProtected = False, ri_createdAt = None, ri_startTime = 1,
      ri_recordingEnabled = False, ri_waitingRoom = False, ri_muteOnJoin = False,
      ri_videoOnJoin = True, ri_chatEnabled = True, ri_screenShareEnabled = True\<rparr>"

definition info_room :: "nat \<Rightarrow> room_info" where
  "info_room n =
     \<lparr>ri_roomCode = ''ROOM'', ri_meetingId = ''MEETING'', ri_roomName = ''Standup'',
      ri_hostName = ''Alice'', ri_participantCount = n, ri_maxParticipants = 100,
      ri_isPasswordProtected = False, ri_createdAt = Some 1, ri_startTime = 1,
      ri_recordingEnabled = False, ri_waitingRoom = False, ri_muteOnJoin = False,
      ri_videoOnJoin = True, ri_chatEnabled = True, ri_screenShareEnabled = True\<rparr>"

definition created_standup :: create_ok_body where
  "created_standup =
     \<lparr>cr_roomCode = ''AAAAAAAAAA'', cr_meetingId = ''AAAAAAAAA'', cr_roomName = ''Standup'',
      cr_userId = ''user-1'', cr_username = ''Alice'', cr_hostName = ''Alice'',
      cr_meetingLink = ''/room/AAAAAAAAAA'', cr_settings = settings_open\<rparr>"

definition joined_standup :: join_ok_body where
  "joined_standup =
     \<lparr>jr_roomCode = ''AAAAAAAAAA'', jr_meetingId = ''AAAAAAAAA'', jr_roomName = ''Standup'',
      jr_userId = ''user-2'', jr_username = ''Bob'', jr_hostName = ''Alice'',
      jr_settings = settings_open\<rparr>"

section \<open>Properties of the generators\<close>

lemma length_chars: "length chars = 36"
  by (simp add: chars_def)

lemma hi_exp_numeral:
  "hi_exp (numeral k) x = (if x < 2 then 0 else Suc (hi_exp (pred_numeral k) (x / 2)))"
  by (simp add: numeral_eq_Suc)

lemma lo_exp_numeral:
  "lo_exp (numeral k) x = (if 1 \<le> x then 0 else Suc (lo_exp (pred_numeral k) (2 * x)))"
  by (simp add: numeral_eq_Suc)

lemmas dbl_eval = dbl_mult_def dbl_round_def ulp_def expo_def hi_exp_numeral lo_exp_numeral
  round_half_even_def pow2_def Let_def


lemma rhe_nonneg: "0 \<le> z \<Longrightarrow> 0 \<le> round_half_even z"
  by (auto simp add: round_half_even_def Let_def)

lemma rhe_le_half: "real_of_int (round_half_even z) \<le> z + 1 / 2"
proof -
  have "real_of_int \<lfloor>z\<rfloor> \<le> z" by simp
  then show ?thesis
    by (auto simp add: round_half_even_def Let_def) linarith+
qed

lemma rhe_below:
  assumes "z \<le> real_of_int N - 9 / 16"
  shows "round_half_even z \<le> N - 1"
proof -
  have "z < real_of_int N" using assms by simp
  then have f: "\<lfloor>z\<rfloor> \<le> N - 1" by (simp add: floor_less_iff)
  show ?thesis
  proof (cases "\<lfloor>z\<rfloor> = N - 1")
    case True
    then have "z - real_of_int \<lfloor>z\<rfloor> \<le> 7 / 16" using assms by simp
    then have "z - real_of_int \<lfloor>z\<rfloor> < 1 / 2" by simp
    then have "round_half_even z = \<lfloor>z\<rfloor>" by (simp add: round_half_even_def Let_def)
    with True show ?thesis by simp
  next
    case False
    with f have "\<lfloor>z\<rfloor> + 1 \<le> N - 1" by simp
    moreover have "round_half_even z \<le> \<lfloor>z\<rfloor> + 1"
      by (simp add: round_half_even_def Let_def)
    ultimately show ?thesis by simp
  qed
qed

lemma pow2_pos: "0 < pow2 e"
  by (simp add: pow2_def)

lemma ulp_pos: "0 < ulp x"
  by (simp add: ulp_def pow2_pos)

lemma hi_exp_le: "x < 2 * 2 ^ k \<Longrightarrow> hi_exp n x \<le> k"
proof (induction n arbitrary: x k)
  case 0
  then show ?case by simp
next
  case (Suc n)
  show ?case
  proof (cases "x < 2")
    case True
    then show ?thesis by simp
  next
    case False
    with Suc.prems obtain j where k: "k = Suc j" by (cases k) auto
    with Suc.prems have "x / 2 < 2 * 2 ^ j" by simp
    then have "hi_exp n (x / 2) \<le> j" by (rule Suc.IH)
    with False k show ?thesis by simp
  qed
qed

lemma inv_pow2_le_one: "(1::real) / 2 ^ k \<le> 1"
proof -
  have "(1 / 2 :: real) ^ k \<le> 1" by (rule power_le_one) simp_all
  then show ?thesis by (simp add: power_one_over)
qed

lemma ulp_le_one:
  assumes "x < 32"
  shows "ulp x \<le> 1"
proof -
  have "expo x \<le> 4"
  proof (cases "1 \<le> x")
    case True
    from assms have "x < 2 * 2 ^ 4" by simp
    then have "hi_exp 1023 x \<le> 4" by (rule hi_exp_le)
    with True show ?thesis by (simp add: expo_def)
  next
    case False
    then show ?thesis by (simp add: expo_def)
  qed
  then have "expo x - 52 < 0" by simp
  then have "ulp x = 1 / 2 ^ nat (- (expo x - 52))" by (simp add: ulp_def pow2_def)
  moreover have "(1::real) / 2 ^ nat (- (expo x - 52)) \<le> 1" by (rule inv_pow2_le_one)
  ultimately show ?thesis by (simp only:)
qed

lemma dbl_round_nonneg: "0 \<le> x \<Longrightarrow> 0 \<le> dbl_round x"
  using rhe_nonneg [of "x / ulp x"] ulp_pos [of x]
  by (simp add: dbl_round_def)

lemma dbl_round_small:
  assumes "0 \<le> x" "x < 32"
  shows "dbl_round x < 36"
proof -
  have u: "0 < ulp x" "ulp x \<le> 1" using ulp_pos ulp_le_one [OF assms(2)] by simp_all
  have "real_of_int (round_half_even (x / ulp x)) \<le> x / ulp x + 1 / 2" by (rule rhe_le_half)
  then have "real_of_int (round_half_even (x / ulp x)) * ulp x \<le> (x / ulp x + 1 / 2) * ulp x"
    using u(1) by (simp add: mult_right_mono)
  also have "\<dots> = x + ulp x / 2" using u(1) by (simp add: field_simps)
  also have "\<dots> < 36" using assms(2) u(2) by simp
  finally show ?thesis using assms(1) by (simp add: dbl_round_def)
qed

lemma ulp_top_binade:
  assumes "32 \<le> x" "x < 64"
  shows "ulp x = 1 / 2 ^ 47"
proof -
  have "hi_exp 1023 x = 5" using assms by (simp add: hi_exp_numeral)
  then have "expo x = 5" using assms by (simp add: expo_def)
  then show ?thesis by (simp add: ulp_def pow2_def)
qed

lemma dbl_round_below_36:
  assumes "32 \<le> x" "x \<le> 36 - 36 / 2 ^ 53"
  shows "dbl_round x < 36"
proof -
  have u: "ulp x = 1 / 2 ^ 47" using assms by (intro ulp_top_binade) simp_all
  have "x / ulp x = x * 2 ^ 47" by (simp add: u)
  also have "\<dots> \<le> (36 - 36 / 2 ^ 53) * 2 ^ 47" using assms(2) by simp
  also have "\<dots> = real_of_int (36 * 2 ^ 47) - 9 / 16" by simp
  finally have "round_half_even (x / ulp x) \<le> 36 * 2 ^ 47 - 1" by (rule rhe_below)
  then have "real_of_int (round_half_even (x / ulp x)) \<le> real_of_int (36 * 2 ^ 47 - 1)"
    by (rule iffD2 [OF of_int_le_iff])
  then have "real_of_int (round_half_even (x / ulp x)) \<le> 36 * 2 ^ 47 - 1"
    by simp
  then have "real_of_int (round_half_even (x / ulp x)) * ulp x \<le> (36 * 2 ^ 47 - 1) / 2 ^ 47"
    by (simp add: u field_simps)
  also have "\<dots> < 36" by simp
  finally show ?thesis using assms(1) by (simp add: dbl_round_def)
qed

lemma double_below_one:
  assumes "is_double r" "1 / 2 \<le> r" "r < 1"
  shows "r \<le> 1 - 1 / 2 ^ 53"
proof -
  have "lo_exp 1022 r = 1" using assms(2,3) by (simp add: lo_exp_numeral)
  then have "expo r = - 1" using assms(3) by (simp add: expo_def)
  then have u: "ulp r = 1 / 2 ^ 53" by (simp add: ulp_def pow2_def)
  define n where "n = round_half_even (r / ulp r)"
  from assms(1,2) have r: "r = real_of_int n / 2 ^ 53"
    by (simp add: is_double_def dbl_round_def n_def u)
  with assms(3) have "real_of_int n < 2 ^ 53" by (simp add: field_simps)
  then have "real_of_int n < real_of_int (2 ^ 53)" by simp
  then have "n < 2 ^ 53" by (rule iffD1 [OF of_int_less_iff])
  then have "n \<le> 2 ^ 53 - 1" by simp
  then have "real_of_int n \<le> real_of_int (2 ^ 53 - 1)" by (rule iffD2 [OF of_int_le_iff])
  then have "real_of_int n \<le> 2 ^ 53 - 1" by simp
  then have "real_of_int n / 2 ^ 53 \<le> (2 ^ 53 - 1) / 2 ^ 53"
    by (simp add: divide_right_mono)
  with r show ?thesis by (simp add: field_simps)
qed

lemma random_index:
  assumes "is_double r" "0 \<le> r" "r < 1"
  shows "0 \<le> \<lfloor>dbl_mult r 36\<rfloor> \<and> \<lfloor>dbl_mult r 36\<rfloor> < 36"
proof -
  have nn: "0 \<le> dbl_round (r * 36)" using assms(2) by (intro dbl_round_nonneg) simp
  have lt: "dbl_round (r * 36) < 36"
  proof (cases "r * 36 < 32")
    case True
    with assms(2) show ?thesis by (intro dbl_round_small) simp_all
  next
    case False
    then have "1 / 2 \<le> r" by simp
    with assms have "r \<le> 1 - 1 / 2 ^ 53" by (intro double_below_one)
    then have "r * 36 \<le> (1 - 1 / 2 ^ 53) * 36" by (simp only: mult_right_mono)
    then have "r * 36 \<le> 36 - 36 / 2 ^ 53" by (simp add: algebra_simps)
    with False show ?thesis by (intro dbl_round_below_36) simp_all
  qed
  from nn lt show ?thesis by (simp add: dbl_mult_def floor_less_iff)
qed

lemma charAt_random:
  assumes "is_double r" "0 \<le> r" "r < 1"
  shows "\<exists>c. charAt chars \<lfloor>dbl_mult r (real (length chars))\<rfloor> = [c] \<and> c \<in> set chars"
proof -
  from random_index [OF assms]
  have lo: "0 \<le> \<lfloor>dbl_mult r 36\<rfloor>" and hi: "\<lfloor>dbl_mult r 36\<rfloor> < 36" by simp_all
  have "nat \<lfloor>dbl_mult r 36\<rfloor> < length chars" using lo hi unfolding length_chars by linarith
  then have mem: "chars ! nat \<lfloor>dbl_mult r 36\<rfloor> \<in> set chars" by (rule nth_mem)
  have "charAt chars \<lfloor>dbl_mult r (real (length chars))\<rfloor> = [chars ! nat \<lfloor>dbl_mult r 36\<rfloor>]"
    using lo hi by (simp add: charAt_def length_chars)
  with mem show ?thesis by blast
qed

lemma codeLoop_shape:
  "\<forall>i. is_double (rnd i) \<and> 0 \<le> rnd i \<and> rnd i < 1 \<Longrightarrow>
   length (codeLoop n rnd i result) = length result + (n - i)
   \<and> set (codeLoop n rnd i result) \<subseteq> set result \<union> set chars"
proof (induction n rnd i result rule: codeLoop.induct)
  case (1 n rnd i result)
  show ?case
  proof (cases "i < n")
    case False
    then show ?thesis by (simp add: codeLoop.simps [of n rnd i result])
  next
    case True
    from "1.prems" have "is_double (rnd i)" "0 \<le> rnd i" "rnd i < 1" by simp_all
    then obtain c
      where c: "charAt chars \<lfloor>dbl_mult (rnd i) (real (length chars))\<rfloor> = [c]" "c \<in> set chars"
      using charAt_random [of "rnd i"] by blast
    from "1.IH" [OF True "1.prems"] True c show ?thesis
      by (auto simp add: codeLoop.simps [of n rnd i result])
  qed
qed

text \<open>
  C8. Every generated room code has length exactly 10 and every generated meeting id
  length exactly 9, and every character of both is one of the 36 symbols
  \<open>A\<close>-\<open>Z\<close>, \<open>0\<close>-\<open>9\<close> of \<open>chars\<close>, whatever doubles in \<open>[0, 1)\<close> the random
  source returns: the rounded product with 36 stays below 36.
\<close>

theorem generated_codes_shape:
  assumes "\<forall>i. is_double (rnd i) \<and> 0 \<le> rnd i \<and> rnd i < 1"
  shows "length (generateRoomCode rnd) = 10
       \<and> set (generateRoomCode rnd) \<subseteq> set chars
       \<and> length (generateMeetingId rnd) = 9
       \<and> set (generateMeetingId rnd) \<subseteq> set chars
       \<and> length chars = 36 \<and> distinct chars
       \<and> set chars = set ''ABCDEFGHIJKLMNOPQRSTUVWXYZ'' \<union> set ''0123456789''"
proof -
  have "distinct chars" by (simp add: chars_def)
  moreover have "set chars = set ''ABCDEFGHIJKLMNOPQRSTUVWXYZ'' \<union> set ''0123456789''"
    by (auto simp add: chars_def)
  ultimately show ?thesis
    using codeLoop_shape [OF assms, of 10 0 "[]"] codeLoop_shape [OF assms, of 9 0 "[]"]
    by (simp add: generateRoomCode_def generateMeetingId_def length_chars)
qed

lemma top_double_facts: "is_double top_double" "0 \<le> top_double" "top_double < 1"
  by (simp_all add: top_double_def is_double_def dbl_eval)

lemma step_top: "charAt chars \<lfloor>dbl_mult top_double (real (length chars))\<rfloor> = ''9''"
  by (simp add: top_double_def length_chars dbl_eval) (simp add: charAt_def chars_def)

theorem generated_codes_shape_witness:
  "is_double top_double
   \<and> 0 \<le> top_double
   \<and> top_double < 1
   \<and> generateRoomCode (\<lambda>i. top_double) = ''9999999999''
   \<and> generateMeetingId (\<lambda>i. top_double) = ''999999999''
   \<and> length (generateRoomCode (\<lambda>i. top_double)) = 10
   \<and> set (generateRoomCode (\<lambda>i. top_double)) \<subseteq> set chars
   \<and> length (generateMeetingId (\<lambda>i. top_double)) = 9"
proof -
  have h: "\<forall>i::nat. is_double ((\<lambda>i. top_double) i)
             \<and> 0 \<le> (\<lambda>i. top_double) i \<and> (\<lambda>i. top_double) i < 1"
    by (simp add: top_double_facts)
  have e: "generateRoomCode (\<lambda>i. top_double) = ''9999999999''"
    by (simp add: generateRoomCode_def codeLoop.simps step_top)
  have f: "generateMeetingId (\<lambda>i. top_double) = ''999999999''"
    by (simp add: generateMeetingId_def codeLoop.simps step_top)
  from generated_codes_shape [OF h] e f top_double_facts show ?thesis by simp
qed

section \<open>Properties of the connection registry and the relays\<close>

lemmas reg_eval = reg_unbound_def reg_three_def reg_shared_def reg_unbound_joined_def
  bind_identity_def connect_def registry0_def add_member_def

lemma other_ids_excludes_self: "c \<notin> set (other_ids st c roomId)"
  by (simp add: other_ids_def)

lemma others_p2_identified:
  "user \<in> set (others_p2 st ds) \<Longrightarrow> truthy (obj_get user ''userId'')"
  by (simp add: others_p2_def)

lemma others_p2_skips_unbound:
  "sockets st d = Some \<lparr>s_userId = Undefined, s_userData = None\<rparr>
   \<Longrightarrow> entry_p2 st d \<notin> set (others_p2 st ds)"
  by (simp add: others_p2_def entry_p2_def spread_def obj_get_def)

text \<open>
  C2. The first server variant does not keep the membership snapshot free of
  connections without a user id. Connection \<open>c1\<close> joins room \<open>r\<close> without a user id,
  then connection \<open>c2\<close> joins as \<open>alice\<close>: the \<^verbatim>\<open>room-users\<close> event sent to \<open>c2\<close> lists
  an entry for \<open>c1\<close> whose \<^verbatim>\<open>userId\<close> is undefined. The second variant, which filters
  the entries by \<^verbatim>\<open>user.userId\<close>, sends the empty list in the same state. Neither lists
  the querying connection.
\<close>

theorem room_users_p1_lists_unbound:
  "join_room_p1 (connect (connect registry0 ''c1'') ''c2'') ''c1'' ''r'' Undefined None
     = Inr (reg_unbound, [(''c1'', RoomUsers [])])
   \<and> sock_userId reg_unbound ''c1'' = Undefined
   \<and> map_sum id snd (join_room_p1 reg_unbound ''c2'' ''r'' (Str ''alice'') (Some [(''name'', Str ''Alice'')]))
     = Inr [(''c1'', UserConnected [(''userId'', Str ''alice''), (''name'', Str ''Alice'')]),
            (''c2'', RoomUsers [[(''userId'', Undefined)]])]
   \<and> snd (join_room_p2 reg_unbound ''c2'' ''r'' (Str ''alice'') (Some [(''name'', Str ''Alice'')]))
     = [(''c1'', UserConnected [(''userId'', Str ''alice''), (''name'', Str ''Alice'')]),
        (''c2'', RoomUsers [])]"
proof -
  have a: "join_room_p1 (connect (connect registry0 ''c1'') ''c2'') ''c1'' ''r'' Undefined None
             = Inr (reg_unbound, [(''c1'', RoomUsers [])])"
    by (simp add: join_room_p1_def reg_eval to_room_def other_ids_def spread_def Let_def)
  have b: "sock_userId reg_unbound ''c1'' = Undefined"
    by (simp add: sock_userId_def reg_eval)
  have c: "map_sum id snd (join_room_p1 reg_unbound ''c2'' ''r'' (Str ''alice'') (Some [(''name'', Str ''Alice'')]))
     = Inr [(''c1'', UserConnected [(''userId'', Str ''alice''), (''name'', Str ''Alice'')]),
            (''c2'', RoomUsers [[(''userId'', Undefined)]])]"
    by (simp add: join_room_p1_def reg_eval to_room_def other_ids_def spread_def Let_def)
  have d: "snd (join_room_p2 reg_unbound ''c2'' ''r'' (Str ''alice'') (Some [(''name'', Str ''Alice'')]))
     = [(''c1'', UserConnected [(''userId'', Str ''alice''), (''name'', Str ''Alice'')]),
        (''c2'', RoomUsers [])]"
    by (simp add: join_room_p2_def reg_eval to_room_def other_ids_def
          spread_def Let_def others_p2_def entry_p2_def obj_get_def)
  from a b c d show ?thesis by (intro conjI)
qed









lemma reg_three_sender: "sock_userId reg_three ''s1'' = Str ''alice''"
  by (simp add: sock_userId_def reg_eval)



text \<open>
  C10. The \<^verbatim>\<open>userId\<close> of every relayed signal and of every broadcast chat message is the
  \<^verbatim>\<open>socket.userId\<close> of the sending connection, the value bound by its last
  \<^verbatim>\<open>join-room\<close>. Nothing the client puts into the payload changes it: payloads that
  differ in their other properties (a \<^verbatim>\<open>userId\<close> property, say), and for chat also in
  \<^verbatim>\<open>userName\<close>, reach the same connections with the same \<^verbatim>\<open>userId\<close> field.
\<close>

theorem sender_identity_from_socket:
  "(\<forall>d \<in> set (signal st c p). ev_userId (snd d) = sock_userId st c)
   \<and> (\<forall>d \<in> set (send_message st c m). ev_userId (snd d) = sock_userId st c)
   \<and> signal st c (p\<lparr>sg_extra := x\<rparr>) = signal st c p
   \<and> map (\<lambda>d. (fst d, ev_userId (snd d))) (send_message st c (m\<lparr>md_userName := n, md_extra := y\<rparr>))
     = map (\<lambda>d. (fst d, ev_userId (snd d))) (send_message st c m)
   \<and> sock_userId (fst (join_room_p2 st c r u ud)) c = u
   \<and> (\<forall>st' ds. join_room_p1 st c r u ud = Inr (st', ds) \<longrightarrow> sock_userId st' c = u)"
proof -
  have a: "\<forall>d \<in> set (signal st c p). ev_userId (snd d) = sock_userId st c"
    by (auto simp add: signal_def io_to_def split: option.split)
  have b: "\<forall>d \<in> set (send_message st c m). ev_userId (snd d) = sock_userId st c"
    by (auto simp add: send_message_def to_room_def)
  have c: "signal st c (p\<lparr>sg_extra := x\<rparr>) = signal st c p"
    by (simp add: signal_def split: option.split)
  have d: "map (\<lambda>d. (fst d, ev_userId (snd d))) (send_message st c (m\<lparr>md_userName := n, md_extra := y\<rparr>))
     = map (\<lambda>d. (fst d, ev_userId (snd d))) (send_message st c m)"
    by (simp add: send_message_def to_room_def)
  have e: "sock_userId (fst (join_room_p2 st c r u ud)) c = u"
    by (simp add: join_room_p2_def Let_def bind_identity_def sock_userId_def)
  have f: "\<forall>st' ds. join_room_p1 st c r u ud = Inr (st', ds) \<longrightarrow> sock_userId st' c = u"
    by (auto simp add: join_room_p1_def Let_def bind_identity_def sock_userId_def
          split: sum.splits)
  from a b c d e f show ?thesis by (intro conjI)
qed

theorem sender_identity_from_socket_witness:
  "signal reg_three ''s1'' (sig_to ''bob'') = [(''s2'', Signal (Str ''alice'') ''sdp'')]
   \<and> list_all (\<lambda>d. ev_userId (snd d) = Str ''alice'') (signal reg_three ''s1'' (sig_to ''bob''))
   \<and> send_message reg_three ''s1'' msg_hello
       = [(''s2'', ReceiveMessage (Str ''alice'') ''Alice'' ''hello'' ''12:00''),
          (''s3'', ReceiveMessage (Str ''alice'') ''Alice'' ''hello'' ''12:00'')]
   \<and> list_all (\<lambda>d. ev_userId (snd d) = Str ''alice'') (send_message reg_three ''s1'' msg_hello)
   \<and> join_room_p1 reg_unbound ''c2'' ''r'' (Str ''alice'') None
       = Inr (bind_identity reg_unbound ''c2'' ''r'' (Str ''alice'') None,
              [(''c1'', UserConnected [(''userId'', Str ''alice'')]),
               (''c2'', RoomUsers [[(''userId'', Undefined)]])])
   \<and> sock_userId (bind_identity reg_unbound ''c2'' ''r'' (Str ''alice'') None) ''c2'' = Str ''alice''"
proof -
  note s = reg_three_sender
  have a: "signal reg_three ''s1'' (sig_to ''bob'') = [(''s2'', Signal (Str ''alice'') ''sdp'')]"
    by (simp add: signal_def io_to_def sock_userId_def sig_to_def is_target_def reg_eval)
  have b: "send_message reg_three ''s1'' msg_hello
       = [(''s2'', ReceiveMessage (Str ''alice'') ''Alice'' ''hello'' ''12:00''),
          (''s3'', ReceiveMessage (Str ''alice'') ''Alice'' ''hello'' ''12:00'')]"
    by (simp add: send_message_def sock_userId_def to_room_def msg_hello_def reg_eval)
  have c: "join_room_p1 reg_unbound ''c2'' ''r'' (Str ''alice'') None
       = Inr (bind_identity reg_unbound ''c2'' ''r'' (Str ''alice'') None,
              [(''c1'', UserConnected [(''userId'', Str ''alice'')]),
               (''c2'', RoomUsers [[(''userId'', Undefined)]])])"
    by (simp add: join_room_p1_def reg_eval to_room_def other_ids_def spread_def Let_def)
  note t = sender_identity_from_socket [where st = reg_three and c = "''s1''" and p = "sig_to ''bob''"
             and m = msg_hello and x = "[]" and n = "[]" and y = "[]"
             and r = "''r''" and u = "Str ''alice''" and ud = None]
  note t2 = sender_identity_from_socket [where st = reg_unbound and c = "''c2''" and p = "sig_to ''bob''"
             and m = msg_hello and x = "[]" and n = "[]" and y = "[]"
             and r = "''r''" and u = "Str ''alice''" and ud = None]
  from t have d: "\<forall>d \<in> set (signal reg_three ''s1'' (sig_to ''bob'')). ev_userId (snd d) = Str ''alice''"
    unfolding s by (rule conjunct1)
  from t have e: "\<forall>d \<in> set (send_message reg_three ''s1'' msg_hello). ev_userId (snd d) = Str ''alice''"
    unfolding s by (elim conjE)
  from t2 have "\<forall>st' ds. join_room_p1 reg_unbound ''c2'' ''r'' (Str ''alice'') None = Inr (st', ds)
                 \<longrightarrow> sock_userId st' ''c2'' = Str ''alice''"
    by (elim conjE)
  with c have f: "sock_userId (bind_identity reg_unbound ''c2'' ''r'' (Str ''alice'') None) ''c2'' = Str ''alice''"
    by (elim allE impE) (assumption+)
  from d have d': "list_all (\<lambda>d. ev_userId (snd d) = Str ''alice'') (signal reg_three ''s1'' (sig_to ''bob''))"
    by (simp only: list_all_iff)
  from e have e': "list_all (\<lambda>d. ev_userId (snd d) = Str ''alice'') (send_message reg_three ''s1'' msg_hello)"
    by (simp only: list_all_iff)
  from a d' b e' c f show ?thesis by (intro conjI)
qed

section \<open>Properties of the meeting lifecycle\<close>

lemma find_map_keeps_code:
  assumes "\<And>d. roomCode (snd (g d)) = roomCode (snd d)"
  shows "find (\<lambda>d. roomCode (snd d) = code) (map g ds)
           = map_option g (find (\<lambda>d. roomCode (snd d) = code) ds)"
  by (induction ds) (simp_all add: assms)

lemma update_found:
  assumes f: "find (\<lambda>d. roomCode (snd d) = code) ds = Some d"
    and k: "\<And>m. roomCode (f m) = roomCode m"
  shows "\<exists>ds'. Meeting_update True (Some (fst d)) f ds = Inr ds'
           \<and> find (\<lambda>d. roomCode (snd d) = code) ds' = Some (fst d, f (snd d))
           \<and> map fst ds' = map fst ds"
proof -
  let ?g = "\<lambda>x. if fst x = fst d then (fst x, f (snd x)) else x"
  from f have "d \<in> set ds" by (auto simp add: find_Some_iff)
  then have mem: "fst d \<in> set (map fst ds)" by simp
  have "\<And>x. roomCode (snd (?g x)) = roomCode (snd x)" by (simp add: k)
  then have "find (\<lambda>d. roomCode (snd d) = code) (map ?g ds)
               = map_option ?g (find (\<lambda>d. roomCode (snd d) = code) ds)"
    by (rule find_map_keeps_code)
  with f have "find (\<lambda>d. roomCode (snd d) = code) (map ?g ds) = Some (fst d, f (snd d))"
    by simp
  moreover have "map fst (map ?g ds) = map fst ds" by (induction ds) simp_all
  moreover have "Meeting_update True (Some (fst d)) f ds = Inr (map ?g ds)"
    using mem by (simp add: Meeting_update_def)
  ultimately show ?thesis by blast
qed

lemma lookup_store_found:
  assumes "lookupMeeting ok st code = Some (FromStore i, m)"
  shows "ok \<and> find (\<lambda>d. roomCode (snd d) = code) (meetings st) = Some (i, m)"
  using assms
  by (auto simp add: lookupMeeting_def Meeting_getByRoomCode_def
        split: if_splits option.splits)

lemma lookup_memory_found:
  assumes "lookupMeeting ok st code = Some (FromMemory, m)"
  shows "\<exists>room. inMemoryRooms st code = Some room \<and> m = mem_view st room"
  using assms
  by (auto simp add: lookupMeeting_def Meeting_getByRoomCode_def
        split: if_splits option.splits)

lemma gen_zero:
  "generateRoomCode (\<lambda>i. 0) = ''AAAAAAAAAA''" "generateMeetingId (\<lambda>i. 0) = ''AAAAAAAAA''"
proof -
  have "charAt chars \<lfloor>dbl_mult 0 (real (length chars))\<rfloor> = ''A''"
    by (simp add: length_chars dbl_eval) (simp add: charAt_def chars_def)
  then show "generateRoomCode (\<lambda>i. 0) = ''AAAAAAAAAA''"
    and "generateMeetingId (\<lambda>i. 0) = ''AAAAAAAAA''"
    by (simp_all add: generateRoomCode_def generateMeetingId_def codeLoop.simps)
qed

lemma trim_names: "trim ''Alice'' = ''Alice''" "trim ''Standup'' = ''Standup''"
  by (simp_all add: trim_def is_space_def)

lemma create_fallback:
  "room_create env_down store0 req_standup
     = (st_fallback, Success created_standup)"
  by (simp add: room_create_def env_down_def store0_def req_standup_def or_else_def Let_def
        gen_zero trim_names Meeting_create_def st_fallback_def settings_open_def alice_def
        created_standup_def)

lemma get_fallback: "room_get ok st_fallback ''AAAAAAAAAA'' = Success (info_standup 1)"
  by (simp add: room_get_def lookupMeeting_def Meeting_getByRoomCode_def st_fallback_def
        mem_view_def deref_def activeCount_def alice_def settings_open_def info_standup_def)

lemma join_fallback:
  "room_join (env_up\<lparr>get_ok := g, partWrite_ok := w\<rparr>) st_fallback
       \<lparr>j_roomCode = ''AAAAAAAAAA'', j_username = ''Bob'', j_password = None\<rparr>
     = (st_joined, Success joined_standup)"
  by (simp add: room_join_def lookupMeeting_def Meeting_getByRoomCode_def st_fallback_def
        mem_view_def deref_def activeCount_def alice_def settings_open_def env_up_def
        Let_def push_mem_def Meeting_update_def st_joined_def bob_def joined_standup_def)

lemma get_joined: "room_get ok st_joined ''AAAAAAAAAA'' = Success (info_standup 3)"
  by (simp add: room_get_def lookupMeeting_def Meeting_getByRoomCode_def st_joined_def
        mem_view_def deref_def activeCount_def alice_def bob_def settings_open_def
        info_standup_def)

lemma join_store_adds_one:
  assumes v: "j_roomCode rq \<noteq> []" "j_username rq \<noteq> []"
    and l: "lookupMeeting (get_ok e) st (j_roomCode rq) = Some (FromStore i, m)"
    and a: "isActive m"
    and p: "password (settings m) = [] \<or> j_password rq = Some (password (settings m))"
    and c: "\<not> maxParticipants (settings m) \<le> int (activeCount (participants m))"
    and w: "partWrite_ok e"
    and n: "new = \<lparr>userId = newUserId e, userName = j_username rq, joinedAt = now e,
                   leftAt = None, isHost = False, cameraOn = None, micOn = None\<rparr>"
  shows "snd (room_join e st rq)
           = Success \<lparr>jr_roomCode = roomCode m, jr_meetingId = meetingId m,
                      jr_roomName = roomName m, jr_userId = newUserId e,
                      jr_username = j_username rq, jr_hostName = hostName m,
                      jr_settings = settings m\<rparr>
       \<and> find (\<lambda>d. roomCode (snd d) = j_roomCode rq) (meetings (fst (room_join e st rq)))
           = Some (i, m\<lparr>participants := participants m @ [new]\<rparr>)
       \<and> activeCount (participants m @ [new]) = activeCount (participants m) + 1
       \<and> inMemoryRooms (fst (room_join e st rq)) = inMemoryRooms st"
proof -
  from l have f: "find (\<lambda>d. roomCode (snd d) = j_roomCode rq) (meetings st) = Some (i, m)"
    using lookup_store_found by blast
  have k: "\<And>x::participant meeting.
             roomCode (x\<lparr>participants := participants m @ [new]\<rparr>) = roomCode x"
    by simp
  from update_found [OF f k] obtain ds' where
    u: "Meeting_update True (Some i) (\<lambda>d. d\<lparr>participants := participants m @ [new]\<rparr>)
          (meetings st) = Inr ds'"
    and g: "find (\<lambda>d. roomCode (snd d) = j_roomCode rq) ds'
              = Some (i, m\<lparr>participants := participants m @ [new]\<rparr>)"
    by auto
  have r: "room_join e st rq
             = (st\<lparr>heap := heap st @ [new], meetings := ds'\<rparr>,
                Success \<lparr>jr_roomCode = roomCode m, jr_meetingId = meetingId m,
                         jr_roomName = roomName m, jr_userId = newUserId e,
                         jr_username = j_username rq, jr_hostName = hostName m,
                         jr_settings = settings m\<rparr>)"
    using v l a p c w u by (auto simp add: room_join_def Let_def n)
  have "activeCount (participants m @ [new]) = activeCount (participants m) + 1"
    by (simp add: activeCount_def n)
  with r g show ?thesis by simp
qed

lemma leave_last_store:
  assumes ok: "get_ok e" "partWrite_ok e" "endWrite_ok e"
    and f: "find (\<lambda>d. roomCode (snd d) = r_roomId rq) (meetings st) = Some (i, m)"
    and p: "find (\<lambda>p. userId p = r_userId rq) (participants m) = Some q"
    and z: "activeCount (mark_left (r_userId rq) (now e) (participants m)) = 0"
  shows "find (\<lambda>d. roomCode (snd d) = r_roomId rq) (meetings (fst (room_leave e st rq)))
           = Some (i, m\<lparr>participants := mark_left (r_userId rq) (now e) (participants m),
                        isActive := False, endTime := Some (now e)\<rparr>)
       \<and> room_get True (fst (room_leave e st rq)) (r_roomId rq) = NotFound"
proof -
  let ?ps = "mark_left (r_userId rq) (now e) (participants m)"
  have k1: "\<And>x::participant meeting. roomCode (x\<lparr>participants := ?ps\<rparr>) = roomCode x"
    by simp
  from update_found [OF f k1] obtain ds1 where
    u1: "Meeting_update True (Some i) (\<lambda>d. d\<lparr>participants := ?ps\<rparr>) (meetings st) = Inr ds1"
    and g1: "find (\<lambda>d. roomCode (snd d) = r_roomId rq) ds1 = Some (i, m\<lparr>participants := ?ps\<rparr>)"
    by auto
  have k2: "\<And>x::participant meeting.
              roomCode (x\<lparr>isActive := False, endTime := Some (now e)\<rparr>) = roomCode x"
    by simp
  from update_found [OF g1 k2] obtain ds2 where
    u2: "Meeting_update True (Some i) (\<lambda>d. d\<lparr>isActive := False, endTime := Some (now e)\<rparr>) ds1
           = Inr ds2"
    and g2: "find (\<lambda>d. roomCode (snd d) = r_roomId rq) ds2
               = Some (i, m\<lparr>participants := ?ps, isActive := False, endTime := Some (now e)\<rparr>)"
    by auto
  have r: "room_leave e st rq = (st\<lparr>meetings := ds2\<rparr>, Success ())"
    using ok f p z u1 u2
    by (simp add: room_leave_def Meeting_getByRoomCode_def Let_def leave_cascade_def)
  have "room_get True (st\<lparr>meetings := ds2\<rparr>) (r_roomId rq) = NotFound"
    using g2 by (simp add: room_get_def lookupMeeting_def Meeting_getByRoomCode_def)
  with r g2 show ?thesis by simp
qed

lemma leave_last_memory:
  assumes ok: "\<not> get_ok e"
    and f: "inMemoryRooms st (r_roomId rq) = Some room"
    and p: "find (\<lambda>a. userId (heap st ! a) = r_userId rq) (participants room) = Some a"
    and z: "activeCount (deref (st\<lparr>heap := (heap st)[a := (heap st ! a)\<lparr>leftAt := Some (now e)\<rparr>]\<rparr>)
              room) = 0"
  shows "inMemoryRooms (fst (room_leave e st rq)) (r_roomId rq) = None
       \<and> room_get False (fst (room_leave e st rq)) (r_roomId rq) = NotFound"
  using assms
  by (simp add: room_leave_def Meeting_getByRoomCode_def leave_memory_def Let_def
        room_get_def lookupMeeting_def)

lemma join_store_write_fails:
  assumes v: "j_roomCode rq \<noteq> []" "j_username rq \<noteq> []"
    and l: "lookupMeeting (get_ok e) st (j_roomCode rq) = Some (FromStore i, m)"
    and a: "isActive m"
    and p: "password (settings m) = [] \<or> j_password rq = Some (password (settings m))"
    and c: "\<not> maxParticipants (settings m) \<le> int (activeCount (participants m))"
    and w: "\<not> partWrite_ok e"
    and n: "inMemoryRooms st (j_roomCode rq) = None"
  shows "(\<exists>body. snd (room_join e st rq) = Success body)
       \<and> meetings (fst (room_join e st rq)) = meetings st
       \<and> inMemoryRooms (fst (room_join e st rq)) = inMemoryRooms st"
  using assms
  by (auto simp add: room_join_def Let_def Meeting_update_def push_mem_def)

lemma join_memory_adds_two:
  assumes v: "j_roomCode rq \<noteq> []" "j_username rq \<noteq> []"
    and l: "lookupMeeting (get_ok e) st (j_roomCode rq) = Some (FromMemory, m)"
    and r: "inMemoryRooms st (j_roomCode rq) = Some room"
    and a: "isActive m"
    and p: "password (settings m) = [] \<or> j_password rq = Some (password (settings m))"
    and c: "\<not> maxParticipants (settings m) \<le> int (activeCount (participants m))"
    and wf: "\<forall>b \<in> set (participants room). b < length (heap st)"
  shows "\<exists>room'. inMemoryRooms (fst (room_join e st rq)) (j_roomCode rq) = Some room'
           \<and> participants room' = participants room @ [length (heap st), length (heap st)]
           \<and> activeCount (deref (fst (room_join e st rq)) room')
               = activeCount (deref st room) + 2"
proof -
  let ?new = "\<lparr>userId = newUserId e, userName = j_username rq, joinedAt = now e,
               leftAt = None, isHost = False, cameraOn = None, micOn = None\<rparr>"
  let ?a = "length (heap st)"
  let ?room' = "room\<lparr>participants := participants room @ [?a, ?a]\<rparr>"
  let ?st' = "st\<lparr>heap := heap st @ [?new],
                inMemoryRooms := (inMemoryRooms st)(j_roomCode rq \<mapsto> ?room')\<rparr>"
  have st': "fst (room_join e st rq) = ?st'"
    using v l a p c r
    by (auto simp add: room_join_def Let_def Meeting_update_def push_mem_def)
  have "map (\<lambda>b. (heap st @ [?new]) ! b) (participants room)
          = map (\<lambda>b. heap st ! b) (participants room)"
    using wf by (simp add: nth_append)
  then have "deref ?st' ?room' = deref st room @ [?new, ?new]"
    by (simp add: deref_def)
  then have "activeCount (deref ?st' ?room') = activeCount (deref st room) + 2"
    by (simp add: activeCount_def)
  then show ?thesis unfolding st' by simp
qed

text \<open>
  C1. On the fallback store one join adds two to the active participant count. With
  the authoritative store unreachable, creating \<open>Standup\<close> as Alice leaves the in-memory
  meeting \<open>st_fallback\<close> with one active participant; one successful join of Bob leads to
  \<open>st_joined\<close>, whose participants array holds three references (Alice, Bob, Bob), and
  get reports three participants. The result is the same whether or not the
  authoritative store answers during the join (\<open>g\<close>, \<open>w\<close>), since the write for an
  in-memory meeting, which has no document id, always throws.
\<close>

theorem join_fallback_counts_twice:
  "room_create env_down store0 req_standup = (st_fallback, Success created_standup)
   \<and> room_get False st_fallback ''AAAAAAAAAA'' = Success (info_standup 1)
   \<and> room_join (env_up\<lparr>get_ok := g, partWrite_ok := w\<rparr>) st_fallback
         \<lparr>j_roomCode = ''AAAAAAAAAA'', j_username = ''Bob'', j_password = None\<rparr>
       = (st_joined, Success joined_standup)
   \<and> map userName (deref st_joined (the (inMemoryRooms st_joined ''AAAAAAAAAA'')))
       = [''Alice'', ''Bob'', ''Bob'']
   \<and> room_get False st_joined ''AAAAAAAAAA'' = Success (info_standup 3)"
proof -
  have "map userName (deref st_joined (the (inMemoryRooms st_joined ''AAAAAAAAAA'')))
          = [''Alice'', ''Bob'', ''Bob'']"
    by (simp add: deref_def st_joined_def alice_def bob_def)
  with create_fallback get_fallback [of False] join_fallback [where g = g and w = w] get_joined [of False]
  show ?thesis by (intro conjI)
qed

text \<open>
  C3. Leave reaches the fallback store only when the authoritative lookup throws. For
  the in-memory meeting \<open>st_fallback\<close>, whose host is its last active participant: when
  the authoritative store answers the lookup (with no document), leave by the host
  returns success and changes nothing, and get still finds the meeting with one
  participant; when the lookup throws, the same request deletes the record and get
  answers NotFound.
\<close>

theorem leave_skips_fallback_when_store_answers:
  "room_get True st_fallback ''AAAAAAAAAA'' = Success (info_standup 1)
   \<and> room_leave env_up st_fallback (end_by ''AAAAAAAAAA'' ''user-1'') = (st_fallback, Success ())
   \<and> snd (room_leave env_down st_fallback (end_by ''AAAAAAAAAA'' ''user-1'')) = Success ()
   \<and> inMemoryRooms (fst (room_leave env_down st_fallback (end_by ''AAAAAAAAAA'' ''user-1'')))
        ''AAAAAAAAAA'' = None
   \<and> room_get False (fst (room_leave env_down st_fallback (end_by ''AAAAAAAAAA'' ''user-1'')))
        ''AAAAAAAAAA'' = NotFound"
proof -
  have a: "room_leave env_up st_fallback (end_by ''AAAAAAAAAA'' ''user-1'') = (st_fallback, Success ())"
    by (simp add: room_leave_def Meeting_getByRoomCode_def env_up_def st_fallback_def)
  have b: "room_leave env_down st_fallback (end_by ''AAAAAAAAAA'' ''user-1'')
     = (\<lparr>meetings = [], inMemoryRooms = Map.empty, heap = [alice\<lparr>leftAt := Some 1\<rparr>]\<rparr>, Success ())"
    by (simp add: room_leave_def Meeting_getByRoomCode_def env_down_def st_fallback_def
          leave_memory_def Let_def alice_def deref_def activeCount_def end_by_def)
  have c: "room_get False \<lparr>meetings = [], inMemoryRooms = Map.empty, heap = [alice\<lparr>leftAt := Some 1\<rparr>]\<rparr>
             ''AAAAAAAAAA'' = NotFound"
    by (simp add: room_get_def lookupMeeting_def Meeting_getByRoomCode_def)
  from get_fallback [of True] a b c show ?thesis by simp
qed

text \<open>
  C4 (as amended). For a well-formed join request (non-empty room code and user name)
  whose lookup finds an active meeting, in either store, and whose password check
  passes (the meeting has no password, or the supplied one equals it): if the number of
  participants without \<open>leftAt\<close>, counted on the participant list just read, is greater
  than or equal to \<open>maxParticipants\<close>, join answers Forbidden and leaves both stores
  as they were; and it answers Forbidden only then.
\<close>

theorem join_full_forbidden:
  assumes "j_roomCode rq \<noteq> []" and "j_username rq \<noteq> []"
    and "lookupMeeting (get_ok e) st (j_roomCode rq) = Some (src, m)"
    and "isActive m"
    and "password (settings m) = [] \<or> j_password rq = Some (password (settings m))"
  shows "(maxParticipants (settings m) \<le> int (activeCount (participants m))
            \<longrightarrow> room_join e st rq = (st, Forbidden))
       \<and> (snd (room_join e st rq) = Forbidden
            \<longrightarrow> maxParticipants (settings m) \<le> int (activeCount (participants m)))"
proof (cases "maxParticipants (settings m) \<le> int (activeCount (participants m))")
  case True
  with assms show ?thesis by (auto simp add: room_join_def)
next
  case False
  have "snd (room_join e st rq) \<noteq> Forbidden"
    using assms False by (auto simp add: room_join_def Let_def split: sum.split)
  with False show ?thesis by simp
qed

text \<open>
  C5 (as amended). For a well-formed join request whose lookup finds an active meeting
  with a non-empty password, a supplied password that is missing or differs from it
  (compared as plain strings) gets Unauthorized, and both stores stay as they were.
\<close>

theorem join_wrong_password_unauthorized:
  assumes "j_roomCode rq \<noteq> []" and "j_username rq \<noteq> []"
    and "lookupMeeting (get_ok e) st (j_roomCode rq) = Some (src, m)"
    and "isActive m"
    and "password (settings m) \<noteq> []"
    and "j_password rq \<noteq> Some (password (settings m))"
  shows "room_join e st rq = (st, Unauthorized)"
  using assms by (auto simp add: room_join_def)

lemma lookup_st_doc:
  "roomCode m = ''ROOM'' \<Longrightarrow> lookupMeeting True (st_doc m) ''ROOM'' = Some (FromStore ''doc-1'', m)"
  by (simp add: lookupMeeting_def Meeting_getByRoomCode_def st_doc_def)

lemma m_locked_facts:
  "roomCode m_locked = ''ROOM''" "isActive m_locked" "password (settings m_locked) = ''pw''"
  "maxParticipants (settings m_locked) = 1" "activeCount (participants m_locked) = 1"
  "hostUserId m_locked = ''user-1''"
  by (simp_all add: m_locked_def doc_room_def settings_locked_full_def settings_open_def
        activeCount_def alice_def)

lemma m_ended_facts:
  "roomCode m_ended = ''ROOM''" "\<not> isActive m_ended" "password (settings m_ended) = ''pw''"
  "maxParticipants (settings m_ended) = 1" "activeCount (participants m_ended) = 0"
  "hostUserId m_ended = ''user-1''"
  by (simp_all add: m_ended_def doc_room_def settings_locked_full_def settings_open_def
        activeCount_def alice_def)

lemma m_closed_facts:
  "roomCode m_closed = ''ROOM''" "\<not> isActive m_closed" "password (settings m_closed) = ''pw''"
  "maxParticipants (settings m_closed) = 1" "activeCount (participants m_closed) = 1"
  by (simp_all add: m_closed_def m_locked_def doc_room_def settings_locked_full_def
        settings_open_def activeCount_def alice_def)

lemma join_bob_facts:
  "j_roomCode (join_bob pw) = ''ROOM''" "j_username (join_bob pw) = ''Bob''"
  "j_password (join_bob pw) = pw"
  by (simp_all add: join_bob_def)

lemma env_up_facts:
  "get_ok env_up" "partWrite_ok env_up" "endWrite_ok env_up" "now env_up = 9"
  by (simp_all add: env_up_def)

text \<open>Without the conditions on the meeting and the request, a meeting at capacity does
  not give Forbidden: a wrong password gives Unauthorized, an ended meeting NotFound, a
  request without a user name BadRequest.\<close>

theorem join_full_forbidden_counterexample:
  "lookupMeeting True (st_doc m_locked) ''ROOM'' = Some (FromStore ''doc-1'', m_locked)
   \<and> maxParticipants (settings m_locked) \<le> int (activeCount (participants m_locked))
   \<and> room_join env_up (st_doc m_locked) (join_bob (Some ''bad''))
       = (st_doc m_locked, Unauthorized)
   \<and> lookupMeeting True (st_doc m_closed) ''ROOM'' = Some (FromStore ''doc-1'', m_closed)
   \<and> maxParticipants (settings m_closed) \<le> int (activeCount (participants m_closed))
   \<and> room_join env_up (st_doc m_closed) (join_bob (Some ''pw'')) = (st_doc m_closed, NotFound)
   \<and> room_join env_up (st_doc m_locked) ((join_bob (Some ''pw''))\<lparr>j_username := []\<rparr>)
       = (st_doc m_locked, BadRequest)"
  by (simp add: lookup_st_doc m_locked_facts m_closed_facts room_join_def join_bob_facts
        env_up_facts)

theorem join_full_forbidden_witness:
  "lookupMeeting True (st_doc m_locked) ''ROOM'' = Some (FromStore ''doc-1'', m_locked)
   \<and> isActive m_locked
   \<and> j_password (join_bob (Some ''pw'')) = Some (password (settings m_locked))
   \<and> maxParticipants (settings m_locked) = 1
   \<and> activeCount (participants m_locked) = 1
   \<and> room_join env_up (st_doc m_locked) (join_bob (Some ''pw'')) = (st_doc m_locked, Forbidden)"
proof -
  have l: "lookupMeeting (get_ok env_up) (st_doc m_locked) (j_roomCode (join_bob (Some ''pw'')))
             = Some (FromStore ''doc-1'', m_locked)"
    by (simp add: env_up_facts join_bob_facts lookup_st_doc m_locked_facts)
  have p: "password (settings m_locked) = []
            \<or> j_password (join_bob (Some ''pw'')) = Some (password (settings m_locked))"
    by (simp add: join_bob_facts m_locked_facts)
  have full: "maxParticipants (settings m_locked) \<le> int (activeCount (participants m_locked))"
    by (simp add: m_locked_facts)
  have "room_join env_up (st_doc m_locked) (join_bob (Some ''pw'')) = (st_doc m_locked, Forbidden)"
    using join_full_forbidden [of "join_bob (Some ''pw'')" env_up "st_doc m_locked"
            "FromStore ''doc-1''" m_locked, OF _ _ l m_locked_facts(2) p] full
    by (simp add: join_bob_facts)
  then show ?thesis
    by (simp add: lookup_st_doc m_locked_facts join_bob_facts)
qed

text \<open>An ended meeting with a password answers NotFound to a wrong password, and a
  request without a user name gets BadRequest.\<close>

theorem join_wrong_password_counterexample:
  "lookupMeeting True (st_doc m_closed) ''ROOM'' = Some (FromStore ''doc-1'', m_closed)
   \<and> password (settings m_closed) = ''pw''
   \<and> room_join env_up (st_doc m_closed) (join_bob (Some ''bad'')) = (st_doc m_closed, NotFound)
   \<and> room_join env_up (st_doc m_locked) ((join_bob (Some ''bad''))\<lparr>j_username := []\<rparr>)
       = (st_doc m_locked, BadRequest)"
  by (simp add: lookup_st_doc m_closed_facts m_locked_facts room_join_def join_bob_facts
        env_up_facts)

theorem join_wrong_password_unauthorized_witness:
  "lookupMeeting True (st_doc m_locked) ''ROOM'' = Some (FromStore ''doc-1'', m_locked)
   \<and> isActive m_locked
   \<and> password (settings m_locked) = ''pw''
   \<and> room_join env_up (st_doc m_locked) (join_bob (Some ''bad'')) = (st_doc m_locked, Unauthorized)
   \<and> room_join env_up (st_doc m_locked) (join_bob None) = (st_doc m_locked, Unauthorized)"
proof -
  have l: "\<And>pw. lookupMeeting (get_ok env_up) (st_doc m_locked) (j_roomCode (join_bob pw))
             = Some (FromStore ''doc-1'', m_locked)"
    by (simp add: env_up_facts join_bob_facts lookup_st_doc m_locked_facts)
  have n: "password (settings m_locked) \<noteq> []" by (simp add: m_locked_facts)
  have a: "room_join env_up (st_doc m_locked) (join_bob (Some ''bad'')) = (st_doc m_locked, Unauthorized)"
    by (rule join_wrong_password_unauthorized [OF _ _ l m_locked_facts(2) n])
       (simp_all add: join_bob_facts m_locked_facts)
  have b: "room_join env_up (st_doc m_locked) (join_bob None) = (st_doc m_locked, Unauthorized)"
    by (rule join_wrong_password_unauthorized [OF _ _ l m_locked_facts(2) n])
       (simp_all add: join_bob_facts m_locked_facts)
  from a b show ?thesis
    by (simp add: lookup_st_doc m_locked_facts)
qed

text \<open>
  C6 (as amended). For the meeting that the lookup of end finds: a user id different
  from the recorded \<open>hostUserId\<close> gets Forbidden and nothing changes. The
  \<open>hostUserId\<close> itself gets success, whatever the participants' state: a meeting taken
  from the fallback store is deleted from it, and a meeting read from the authoritative
  store has \<open>isActive = False\<close> and \<open>endTime\<close> set there when the write succeeds.
\<close>

theorem end_host_only:
  assumes "lookupMeeting (get_ok e) st (r_roomId rq) = Some (src, m)"
  shows "(r_userId rq \<noteq> hostUserId m \<longrightarrow> room_end e st rq = (st, Forbidden))
       \<and> (r_userId rq = hostUserId m \<longrightarrow>
            snd (room_end e st rq) = Success ()
            \<and> (src = FromMemory \<longrightarrow>
                  inMemoryRooms (fst (room_end e st rq)) (r_roomId rq) = None
                  \<and> meetings (fst (room_end e st rq)) = meetings st)
            \<and> (\<forall>i. src = FromStore i \<and> endWrite_ok e \<longrightarrow>
                  find (\<lambda>d. roomCode (snd d) = r_roomId rq) (meetings (fst (room_end e st rq)))
                    = Some (i, m\<lparr>isActive := False, endTime := Some (now e)\<rparr>)
                  \<and> inMemoryRooms (fst (room_end e st rq)) = inMemoryRooms st))"
proof (cases "r_userId rq = hostUserId m")
  case False
  with assms show ?thesis by (simp add: room_end_def)
next
  case True
  show ?thesis
  proof (cases src)
    case FromMemory
    with assms True show ?thesis
      by (simp add: room_end_def Meeting_update_def)
  next
    case (FromStore i)
    from assms FromStore
    have f: "find (\<lambda>d. roomCode (snd d) = r_roomId rq) (meetings st) = Some (i, m)"
      using lookup_store_found by blast
    have k: "\<And>x::participant meeting.
               roomCode (x\<lparr>isActive := False, endTime := Some (now e)\<rparr>) = roomCode x"
      by simp
    from update_found [OF f k] obtain ds' where
      u: "Meeting_update True (Some i) (\<lambda>d. d\<lparr>isActive := False, endTime := Some (now e)\<rparr>)
            (meetings st) = Inr ds'"
      and g: "find (\<lambda>d. roomCode (snd d) = r_roomId rq) ds'
                = Some (i, m\<lparr>isActive := False, endTime := Some (now e)\<rparr>)"
      by auto
    have s: "snd (room_end e st rq) = Success ()"
      using assms True by (simp add: room_end_def split: sum.split)
    have w: "endWrite_ok e \<Longrightarrow> room_end e st rq = (st\<lparr>meetings := ds'\<rparr>, Success ())"
      using assms True FromStore u by (simp add: room_end_def)
    from s w g True FromStore show ?thesis by simp
  qed
qed

lemma m_pair_facts:
  "roomCode m_pair = ''ROOM''" "isActive m_pair" "hostUserId m_pair = ''user-1''"
  "activeCount (participants m_pair) = 2" "password (settings m_pair) = []"
  "maxParticipants (settings m_pair) = 100"
  by (simp_all add: m_pair_def doc_room_def settings_open_def activeCount_def alice_def bob_def)

lemma end_by_facts: "r_roomId (end_by code u) = code" "r_userId (end_by code u) = u"
  by (simp_all add: end_by_def)

lemma lookup_st_fallback:
  "lookupMeeting ok st_fallback ''AAAAAAAAAA''
     = Some (FromMemory, mem_view st_fallback (the (inMemoryRooms st_fallback ''AAAAAAAAAA'')))"
  by (simp add: lookupMeeting_def Meeting_getByRoomCode_def st_fallback_def)

lemma host_st_fallback:
  "hostUserId (mem_view st_fallback (the (inMemoryRooms st_fallback ''AAAAAAAAAA''))) = ''user-1''"
  by (simp add: mem_view_def st_fallback_def)

text \<open>When the meeting was read from the authoritative store and the write then throws,
  end by the host answers success, and the meeting stays active there.\<close>

theorem end_host_only_counterexample:
  "lookupMeeting True (st_doc m_pair) ''ROOM'' = Some (FromStore ''doc-1'', m_pair)
   \<and> hostUserId m_pair = ''user-1''
   \<and> snd (room_end (env_up\<lparr>endWrite_ok := False\<rparr>) (st_doc m_pair) (end_by ''ROOM'' ''user-1''))
       = Success ()
   \<and> meetings (fst (room_end (env_up\<lparr>endWrite_ok := False\<rparr>) (st_doc m_pair)
                      (end_by ''ROOM'' ''user-1''))) = [(''doc-1'', m_pair)]
   \<and> isActive m_pair
   \<and> room_get True (fst (room_end (env_up\<lparr>endWrite_ok := False\<rparr>) (st_doc m_pair)
                           (end_by ''ROOM'' ''user-1''))) ''ROOM''
       = Success (info_room 2)"
  by (simp add: lookup_st_doc m_pair_facts room_end_def end_by_facts env_up_def
        Meeting_update_def room_get_def lookupMeeting_def Meeting_getByRoomCode_def st_doc_def
        info_room_def)
     (simp add: m_pair_def doc_room_def settings_open_def)

theorem end_host_only_witness:
  "lookupMeeting True (st_doc m_pair) ''ROOM'' = Some (FromStore ''doc-1'', m_pair)
   \<and> hostUserId m_pair = ''user-1''
   \<and> room_end env_up (st_doc m_pair) (end_by ''ROOM'' ''user-2'') = (st_doc m_pair, Forbidden)
   \<and> snd (room_end env_up (st_doc m_pair) (end_by ''ROOM'' ''user-1'')) = Success ()
   \<and> find (\<lambda>d. roomCode (snd d) = ''ROOM'')
        (meetings (fst (room_end env_up (st_doc m_pair) (end_by ''ROOM'' ''user-1''))))
       = Some (''doc-1'', m_pair\<lparr>isActive := False, endTime := Some 9\<rparr>)
   \<and> activeCount (participants m_pair) = 2
   \<and> snd (room_end env_down st_fallback (end_by ''AAAAAAAAAA'' ''user-1'')) = Success ()
   \<and> inMemoryRooms (fst (room_end env_down st_fallback (end_by ''AAAAAAAAAA'' ''user-1'')))
        ''AAAAAAAAAA'' = None"
proof -
  have l: "\<And>u. lookupMeeting (get_ok env_up) (st_doc m_pair) (r_roomId (end_by ''ROOM'' u))
             = Some (FromStore ''doc-1'', m_pair)"
    by (simp add: env_up_facts end_by_facts lookup_st_doc m_pair_facts)
  have a: "room_end env_up (st_doc m_pair) (end_by ''ROOM'' ''user-2'') = (st_doc m_pair, Forbidden)"
    using end_host_only [OF l, of "''user-2''"] by (simp add: end_by_facts m_pair_facts)
  have b: "snd (room_end env_up (st_doc m_pair) (end_by ''ROOM'' ''user-1'')) = Success ()
           \<and> find (\<lambda>d. roomCode (snd d) = ''ROOM'')
                (meetings (fst (room_end env_up (st_doc m_pair) (end_by ''ROOM'' ''user-1''))))
               = Some (''doc-1'', m_pair\<lparr>isActive := False, endTime := Some 9\<rparr>)"
    using end_host_only [OF l, of "''user-1''"]
    by (simp add: end_by_facts m_pair_facts env_up_facts)
  have l2: "lookupMeeting (get_ok env_down) st_fallback (r_roomId (end_by ''AAAAAAAAAA'' ''user-1''))
             = Some (FromMemory, mem_view st_fallback (the (inMemoryRooms st_fallback ''AAAAAAAAAA'')))"
    by (simp add: end_by_facts lookup_st_fallback)
  have c: "snd (room_end env_down st_fallback (end_by ''AAAAAAAAAA'' ''user-1'')) = Success ()
           \<and> inMemoryRooms (fst (room_end env_down st_fallback (end_by ''AAAAAAAAAA'' ''user-1'')))
                ''AAAAAAAAAA'' = None"
    using end_host_only [OF l2] by (simp add: end_by_facts host_st_fallback)
  from a b c show ?thesis by (simp add: lookup_st_doc m_pair_facts)
qed

lemma find_map_None:
  "(find P (map f xs) = None) = (find (\<lambda>x. P (f x)) xs = None)"
  by (induction xs) simp_all

lemma leave_succeeds: "snd (room_leave e st rq) = Success ()"
  by (simp add: room_leave_def leave_cascade_def Let_def
        split: sum.split option.split)

lemma leave_not_located:
  assumes "if get_ok e then find (\<lambda>d. roomCode (snd d) = r_roomId rq) (meetings st) = None
           else inMemoryRooms st (r_roomId rq) = None"
  shows "fst (room_leave e st rq) = st"
  using assms
  by (cases "get_ok e") (simp_all add: room_leave_def Meeting_getByRoomCode_def leave_memory_def)

lemma leave_stranger_store:
  assumes "get_ok e"
    and "find (\<lambda>d. roomCode (snd d) = r_roomId rq) (meetings st) = Some d"
    and "find (\<lambda>p. userId p = r_userId rq) (participants (snd d)) = None"
    and "activeCount (participants (snd d)) \<noteq> 0"
  shows "fst (room_leave e st rq) = st"
  using assms
  by (simp add: room_leave_def Meeting_getByRoomCode_def leave_cascade_def)

lemma leave_stranger_memory:
  assumes "\<not> get_ok e"
    and "inMemoryRooms st (r_roomId rq) = Some room"
    and "find (\<lambda>p. userId p = r_userId rq) (deref st room) = None"
    and "activeCount (deref st room) \<noteq> 0"
  shows "fst (room_leave e st rq) = st"
proof -
  from assms(3)
  have "find (\<lambda>a. userId (heap st ! a) = r_userId rq) (participants room) = None"
    by (simp add: deref_def find_map_None)
  with assms(1,2,4) show ?thesis
    by (simp add: room_leave_def Meeting_getByRoomCode_def leave_memory_def)
qed

text \<open>
  C9 (as amended). Leave answers success for every room code and user id. It changes
  neither store when it locates no meeting (no document with the code when the
  authoritative lookup resolves, no in-memory meeting with the code when it throws), and
  when the user id matches no participant of the located meeting and that meeting still
  has a participant without \<open>leftAt\<close>.
\<close>

theorem leave_always_succeeds:
  "snd (room_leave e st rq) = Success ()
   \<and> ((if get_ok e then find (\<lambda>d. roomCode (snd d) = r_roomId rq) (meetings st) = None
        else inMemoryRooms st (r_roomId rq) = None)
       \<longrightarrow> fst (room_leave e st rq) = st)
   \<and> (\<forall>d. get_ok e
           \<and> find (\<lambda>d. roomCode (snd d) = r_roomId rq) (meetings st) = Some d
           \<and> find (\<lambda>p. userId p = r_userId rq) (participants (snd d)) = None
           \<and> activeCount (participants (snd d)) \<noteq> 0
          \<longrightarrow> fst (room_leave e st rq) = st)
   \<and> (\<forall>room. \<not> get_ok e
           \<and> inMemoryRooms st (r_roomId rq) = Some room
           \<and> find (\<lambda>p. userId p = r_userId rq) (deref st room) = None
           \<and> activeCount (deref st room) \<noteq> 0
          \<longrightarrow> fst (room_leave e st rq) = st)"
proof (intro conjI allI impI)
  show "snd (room_leave e st rq) = Success ()" by (rule leave_succeeds)
next
  assume "if get_ok e then find (\<lambda>d. roomCode (snd d) = r_roomId rq) (meetings st) = None
          else inMemoryRooms st (r_roomId rq) = None"
  then show "fst (room_leave e st rq) = st" by (rule leave_not_located)
next
  fix d
  assume "get_ok e
           \<and> find (\<lambda>d. roomCode (snd d) = r_roomId rq) (meetings st) = Some d
           \<and> find (\<lambda>p. userId p = r_userId rq) (participants (snd d)) = None
           \<and> activeCount (participants (snd d)) \<noteq> 0"
  then show "fst (room_leave e st rq) = st"
    using leave_stranger_store [of e rq st d] by blast
next
  fix room
  assume "\<not> get_ok e
           \<and> inMemoryRooms st (r_roomId rq) = Some room
           \<and> find (\<lambda>p. userId p = r_userId rq) (deref st room) = None
           \<and> activeCount (deref st room) \<noteq> 0"
  then show "fst (room_leave e st rq) = st"
    using leave_stranger_memory [of e st rq room] by blast
qed

text \<open>An ended meeting in the authoritative store, all participants gone: leave with a
  user id of no participant rewrites its \<open>endTime\<close>.\<close>

theorem leave_always_succeeds_counterexample:
  "find (\<lambda>d. roomCode (snd d) = ''ROOM'') (meetings (st_doc m_ended)) = Some (''doc-1'', m_ended)
   \<and> find (\<lambda>p. userId p = ''ghost'') (participants m_ended) = None
   \<and> endTime m_ended = Some 5
   \<and> meetings (fst (room_leave env_up (st_doc m_ended) (end_by ''ROOM'' ''ghost'')))
       = [(''doc-1'', m_ended\<lparr>endTime := Some 9\<rparr>)]
   \<and> fst (room_leave env_up (st_doc m_ended) (end_by ''ROOM'' ''ghost'')) \<noteq> st_doc m_ended"
proof -
  have a: "find (\<lambda>d. roomCode (snd d) = ''ROOM'') (meetings (st_doc m_ended)) = Some (''doc-1'', m_ended)"
    by (simp add: st_doc_def m_ended_facts)
  have b: "find (\<lambda>p. userId p = ''ghost'') (participants m_ended) = None"
    by (simp add: m_ended_def doc_room_def alice_def)
  have c: "endTime m_ended = Some 5" by (simp add: m_ended_def)
  have d: "meetings (fst (room_leave env_up (st_doc m_ended) (end_by ''ROOM'' ''ghost'')))
       = [(''doc-1'', m_ended\<lparr>endTime := Some 9\<rparr>)]"
  proof -
    have "meetings (fst (room_leave env_up (st_doc m_ended) (end_by ''ROOM'' ''ghost'')))
            = [(''doc-1'', m_ended\<lparr>isActive := False, endTime := Some 9\<rparr>)]"
      using b
      by (simp add: room_leave_def Meeting_getByRoomCode_def env_up_facts st_doc_def end_by_facts
            m_ended_facts leave_cascade_def Meeting_update_def)
    moreover have "m_ended\<lparr>isActive := False, endTime := Some 9\<rparr> = m_ended\<lparr>endTime := Some 9\<rparr>"
      by (simp add: m_ended_def)
    ultimately show ?thesis by simp
  qed
  have ne: "m_ended\<lparr>endTime := Some 9\<rparr> \<noteq> m_ended"
  proof
    assume "m_ended\<lparr>endTime := Some 9\<rparr> = m_ended"
    then have "endTime (m_ended\<lparr>endTime := Some 9\<rparr>) = endTime m_ended" by (rule arg_cong)
    with c show False by simp
  qed
  have e: "fst (room_leave env_up (st_doc m_ended) (end_by ''ROOM'' ''ghost'')) \<noteq> st_doc m_ended"
  proof
    assume "fst (room_leave env_up (st_doc m_ended) (end_by ''ROOM'' ''ghost'')) = st_doc m_ended"
    then have "meetings (fst (room_leave env_up (st_doc m_ended) (end_by ''ROOM'' ''ghost'')))
                 = meetings (st_doc m_ended)"
      by (rule arg_cong)
    with d have "[(''doc-1'', m_ended\<lparr>endTime := Some 9\<rparr>)] = [(''doc-1'', m_ended)]"
      by (simp add: st_doc_def)
    then have "m_ended\<lparr>endTime := Some 9\<rparr> = m_ended" by simp
    with ne show False by simp
  qed
  from a b c d e show ?thesis by (intro conjI)
qed

theorem leave_always_succeeds_witness:
  "get_ok env_up
   \<and> find (\<lambda>d. roomCode (snd d) = ''ROOM'') (meetings (st_doc m_locked)) = Some (''doc-1'', m_locked)
   \<and> find (\<lambda>p. userId p = ''ghost'') (participants m_locked) = None
   \<and> activeCount (participants m_locked) = 1
   \<and> room_leave env_up (st_doc m_locked) (end_by ''ROOM'' ''ghost'') = (st_doc m_locked, Success ())
   \<and> room_leave env_up (st_doc m_locked) (end_by ''NOROOM'' ''user-1'') = (st_doc m_locked, Success ())"
proof -
  have a: "find (\<lambda>d. roomCode (snd d) = ''ROOM'') (meetings (st_doc m_locked)) = Some (''doc-1'', m_locked)"
    by (simp add: st_doc_def m_locked_facts)
  have b: "find (\<lambda>p. userId p = ''ghost'') (participants m_locked) = None"
    by (simp add: m_locked_def doc_room_def alice_def)
  have n: "find (\<lambda>d. roomCode (snd d) = ''NOROOM'') (meetings (st_doc m_locked)) = None"
    by (simp add: st_doc_def m_locked_facts)
  note t = leave_always_succeeds [of env_up "st_doc m_locked" "end_by ''ROOM'' ''ghost''"]
  from t have t1: "snd (room_leave env_up (st_doc m_locked) (end_by ''ROOM'' ''ghost'')) = Success ()"
    by (rule conjunct1)
  from t a b have t2: "fst (room_leave env_up (st_doc m_locked) (end_by ''ROOM'' ''ghost'')) = st_doc m_locked"
    by (simp add: env_up_facts end_by_facts m_locked_facts)
  note u = leave_always_succeeds [of env_up "st_doc m_locked" "end_by ''NOROOM'' ''user-1''"]
  from u have u1: "snd (room_leave env_up (st_doc m_locked) (end_by ''NOROOM'' ''user-1'')) = Success ()"
    by (rule conjunct1)
  from u n have u2: "fst (room_leave env_up (st_doc m_locked) (end_by ''NOROOM'' ''user-1'')) = st_doc m_locked"
    by (simp add: env_up_facts end_by_facts)
  from t1 t2 have r1: "room_leave env_up (st_doc m_locked) (end_by ''ROOM'' ''ghost'') = (st_doc m_locked, Success ())"
    by (simp add: prod_eq_iff)
  from u1 u2 have r2: "room_leave env_up (st_doc m_locked) (end_by ''NOROOM'' ''user-1'') = (st_doc m_locked, Success ())"
    by (simp add: prod_eq_iff)
  from a b r1 r2 show ?thesis by (simp add: env_up_facts m_locked_facts)
qed

end
